theory Spec2Isabelle
  imports Complex_Main "HOL-Library.Sublist" "HOL-Library.Word"
begin

section \<open>Strings\<close>

text \<open>
  A JavaScript string is modelled as a \<^typ>\<open>string\<close>: a list of 8-bit characters, read as
  the code units 0..255 (Latin-1). \<open>toLowerCase\<close> is modelled on the ASCII letters, the only
  ones that the emotion keywords contain; \<open>trim\<close> and the regular expression class
  \<open>\s\<close> use the white space and line terminator code units below 256.
\<close>

definition charCode :: "char \<Rightarrow> nat" where
  "charCode c = of_char c"

definition toLowerChar :: "char \<Rightarrow> char" where
  "toLowerChar c = (if 65 \<le> charCode c \<and> charCode c \<le> 90 then char_of (charCode c + 32) else c)"

definition toLowerCase :: "string \<Rightarrow> string" where
  "toLowerCase s = map toLowerChar s"

definition isWhiteSpace :: "char \<Rightarrow> bool" where
  "isWhiteSpace c = (charCode c \<in> {9, 10, 11, 12, 13, 32, 160})"

definition trim :: "string \<Rightarrow> string" where
  "trim s = rev (dropWhile isWhiteSpace (rev (dropWhile isWhiteSpace s)))"

text \<open>\<open>s.includes(t)\<close>: \<open>t\<close> occurs in \<open>s\<close> as a contiguous substring.\<close>

fun includesStr :: "string \<Rightarrow> string \<Rightarrow> bool" where
  "includesStr [] t = (t = [])"
| "includesStr (c # cs) t = (prefix t (c # cs) \<or> includesStr cs t)"

section \<open>Expression extraction\<close>

text \<open>The keyword list of \<open>extractExpression\<close>, in the order of the source.\<close>

definition emotionKeywords :: "string list" where
  "emotionKeywords =
    [''happy'', ''sad'', ''angry'', ''anxious'', ''worried'', ''confused'',
     ''neutral'', ''calm'', ''stressed'', ''surprised'', ''surprise'', ''fearful'',
     ''disgusted'', ''content'', ''frustrated'', ''concerned'', ''excited'',
     ''disappointed'', ''scared'', ''afraid'', ''cheerful'', ''joyful'']"

text \<open>The list of emotion words that both prompts of \<open>buildVisionPrompt\<close> give to the model.\<close>

definition promptVocabulary :: "string list" where
  "promptVocabulary =
    [''happy'', ''sad'', ''angry'', ''anxious'', ''worried'', ''confused'',
     ''neutral'', ''calm'', ''stressed'', ''surprised'', ''fearful'', ''disgusted'',
     ''content'', ''frustrated'', ''concerned'', ''excited'']"

text \<open>\<open>lowerText.split(/[.,\s]/)[0]\<close>: the text before the first period, comma or white space.\<close>

definition isSeparator :: "char \<Rightarrow> bool" where
  "isSeparator c = (c = CHR ''.'' \<or> c = CHR '','' \<or> isWhiteSpace c)"

definition firstWord :: "string \<Rightarrow> string" where
  "firstWord s = takeWhile (\<lambda>c. \<not> isSeparator c) s"

text \<open>\<open>lowerText.split('.')[0]\<close>: the text before the first period.\<close>

definition firstSentence :: "string \<Rightarrow> string" where
  "firstSentence s = takeWhile (\<lambda>c. c \<noteq> CHR ''.'') s"

text \<open>
  The loop \<open>for (const emotion of emotionKeywords) if (s.includes(emotion)) return emotion\<close>;
  \<open>None\<close> when the loop ends without returning.
\<close>

fun scanKeywords :: "string list \<Rightarrow> string \<Rightarrow> string option" where
  "scanKeywords [] s = None"
| "scanKeywords (emotion # rest) s =
     (if includesStr s emotion then Some emotion else scanKeywords rest s)"

definition extractExpression :: "string \<Rightarrow> string" where
  "extractExpression analysisText =
     (let lowerText = trim (toLowerCase analysisText) in
      if firstWord lowerText \<in> set emotionKeywords then firstWord lowerText
      else case scanKeywords emotionKeywords (firstSentence lowerText) of
             Some emotion \<Rightarrow> emotion
           | None \<Rightarrow>
               (case scanKeywords emotionKeywords lowerText of
                  Some emotion \<Rightarrow> emotion
                | None \<Rightarrow> ''neutral''))"

text \<open>
  \<open>isFirstMatch kws s e\<close>: \<open>e\<close> is the first entry of the list \<open>kws\<close>, in list order, that
  occurs in \<open>s\<close>.
\<close>

definition isFirstMatch :: "string list \<Rightarrow> string \<Rightarrow> string \<Rightarrow> bool" where
  "isFirstMatch kws s e =
     (\<exists>i<length kws. kws ! i = e \<and> includesStr s e \<and> (\<forall>j<i. \<not> includesStr s (kws ! j)))"

section \<open>Base64 encoding of audio\<close>

text \<open>
  \<open>btoa\<close> is a function of the JavaScript runtime. It is modelled as the standard says:
  the base64 encoding of RFC 4648, section 4, of the code units of its argument, three
  bytes to four characters, padded with \<open>=\<close>. The runtime refuses a code unit above 255;
  a \<^typ>\<open>char\<close> has none.
\<close>

definition base64Char :: "nat \<Rightarrow> char" where
  "base64Char i =
     (if i < 26 then char_of (65 + i)
      else if i < 52 then char_of (71 + i)
      else if i < 62 then char_of (i - 4)
      else if i = 62 then CHR ''+'' else CHR ''/'')"

fun btoaCodes :: "nat list \<Rightarrow> string" where
  "btoaCodes [] = []"
| "btoaCodes [a] =
     [base64Char (a div 4), base64Char ((a mod 4) * 16), CHR ''='', CHR ''='']"
| "btoaCodes [a, b] =
     [base64Char (a div 4), base64Char ((a mod 4) * 16 + b div 16),
      base64Char ((b mod 16) * 4), CHR ''='']"
| "btoaCodes (a # b # c # rest) =
     [base64Char (a div 4), base64Char ((a mod 4) * 16 + b div 16),
      base64Char ((b mod 16) * 4 + c div 64), base64Char (c mod 64)] @ btoaCodes rest"

definition btoa :: "string \<Rightarrow> string" where
  "btoa binary = btoaCodes (map charCode binary)"

text \<open>\<open>String.fromCharCode(bytes[i])\<close> for an element of a \<open>Uint8Array\<close>.\<close>

definition fromCharCode :: "8 word \<Rightarrow> char" where
  "fromCharCode b = char_of (unat b)"

text \<open>The loop \<open>for (i = 0; i < bytes.byteLength; i++) binary += String.fromCharCode(bytes[i])\<close>.\<close>

fun appendBytes :: "string \<Rightarrow> 8 word list \<Rightarrow> string" where
  "appendBytes binary [] = binary"
| "appendBytes binary (b # bytes) = appendBytes (binary @ [fromCharCode b]) bytes"

definition arrayBufferToBase64 :: "8 word list \<Rightarrow> string" where
  "arrayBufferToBase64 buffer = btoa (appendBytes [] buffer)"

text \<open>
  The decoder against which the encoder is checked: RFC 4648 decoding of padded base64,
  four characters to three bytes; \<open>None\<close> for a text that is not padded base64.
\<close>

definition base64Index :: "char \<Rightarrow> nat option" where
  "base64Index ch =
     (let n = charCode ch in
      if 65 \<le> n \<and> n \<le> 90 then Some (n - 65)
      else if 97 \<le> n \<and> n \<le> 122 then Some (n - 71)
      else if 48 \<le> n \<and> n \<le> 57 then Some (n + 4)
      else if n = 43 then Some 62
      else if n = 47 then Some 63
      else None)"

fun base64DecodeCodes :: "string \<Rightarrow> nat list option" where
  "base64DecodeCodes [] = Some []"
| "base64DecodeCodes (c1 # c2 # c3 # c4 # rest) =
     (case (base64Index c1, base64Index c2) of
        (Some i, Some j) \<Rightarrow>
          if rest = [] \<and> c3 = CHR ''='' \<and> c4 = CHR ''='' then Some [i * 4 + j div 16]
          else (case base64Index c3 of
                  Some k \<Rightarrow>
                    if rest = [] \<and> c4 = CHR ''=''
                    then Some [i * 4 + j div 16, (j mod 16) * 16 + k div 4]
                    else (case (base64Index c4, base64DecodeCodes rest) of
                            (Some l, Some bytes) \<Rightarrow>
                              Some ([i * 4 + j div 16, (j mod 16) * 16 + k div 4,
                                     (k mod 4) * 64 + l] @ bytes)
                          | _ \<Rightarrow> None)
                | None \<Rightarrow> None)
      | _ \<Rightarrow> None)"
| "base64DecodeCodes _ = None"

definition base64Decode :: "string \<Rightarrow> 8 word list option" where
  "base64Decode s = map_option (map of_nat) (base64DecodeCodes s)"

section \<open>Numbers\<close>

text \<open>
  A JavaScript number is an IEEE 754 double: a finite value, which is a rational, or
  \<open>NaN\<close>, \<open>Infinity\<close> or \<open>-Infinity\<close>. The sign of zero is not modelled: no text or
  comparison of the program tells \<open>-0\<close> from \<open>0\<close>.
\<close>

datatype number = Finite rat | NaN | Infinity | NegInfinity

text \<open>The number of binary digits of a positive integer.\<close>

function bitLength :: "int \<Rightarrow> nat" where
  "bitLength n = (if n \<le> 0 then 0 else Suc (bitLength (n div 2)))"
  by pat_completeness auto
termination
  by (relation "measure nat") auto

declare bitLength.simps [simp del]

text \<open>\<open>floorLog2 x\<close>, for \<open>0 < x\<close>: the exponent \<open>e\<close> with \<open>2^e \<le> x < 2^(e + 1)\<close>.\<close>

definition floorLog2 :: "rat \<Rightarrow> int" where
  "floorLog2 x =
     (if 1 \<le> x then int (bitLength \<lfloor>x\<rfloor>) - 1
      else - int (bitLength (\<lceil>1 / x\<rceil> - 1)))"

definition pow2 :: "int \<Rightarrow> rat" where
  "pow2 e = (if 0 \<le> e then 2 ^ nat e else 1 / 2 ^ nat (- e))"

text \<open>The integer nearest to \<open>m\<close>, the even one of two.\<close>

definition roundHalfEven :: "rat \<Rightarrow> int" where
  "roundHalfEven m =
     (let f = \<lfloor>m\<rfloor>; d = m - of_int f
      in if d < 1 / 2 then f
         else if 1 / 2 < d then f + 1
         else if even f then f else f + 1)"

text \<open>
  The double that an arithmetic operation returns for the exact result \<open>x\<close>: \<open>x\<close> rounded
  to nearest, ties to even, to 53 significant bits (to a multiple of \<open>2^-1074\<close> below
  \<open>2^-1022\<close>), and an infinity from \<open>2^1024\<close>, written \<open>(2^32)^32\<close>, on.
\<close>

definition toDouble :: "rat \<Rightarrow> number" where
  "toDouble x =
     (if x = 0 then Finite 0
      else
        let e = max (floorLog2 \<bar>x\<bar>) (- 1022);
            q = pow2 (e - 52);
            r = of_int (roundHalfEven (x / q)) * q
        in if (2 ^ 32) ^ 32 \<le> \<bar>r\<bar> then (if x < 0 then NegInfinity else Infinity)
           else Finite r)"

text \<open>\<open>a + b\<close> of two numbers.\<close>

fun addNumber :: "number \<Rightarrow> number \<Rightarrow> number" where
  "addNumber (Finite a) (Finite b) = toDouble (a + b)"
| "addNumber NaN b = NaN"
| "addNumber a NaN = NaN"
| "addNumber Infinity NegInfinity = NaN"
| "addNumber NegInfinity Infinity = NaN"
| "addNumber Infinity b = Infinity"
| "addNumber a Infinity = Infinity"
| "addNumber NegInfinity b = NegInfinity"
| "addNumber a NegInfinity = NegInfinity"

text \<open>\<open>a / n\<close> for the length \<open>n\<close> of an array.\<close>

fun divideByCount :: "number \<Rightarrow> nat \<Rightarrow> number" where
  "divideByCount (Finite a) n =
     (if n = 0 then (if a = 0 then NaN else if 0 < a then Infinity else NegInfinity)
      else toDouble (a / of_nat n))"
| "divideByCount NaN n = NaN"
| "divideByCount Infinity n = Infinity"
| "divideByCount NegInfinity n = NegInfinity"

text \<open>\<open>Math.max\<close> and \<open>Math.min\<close> of two numbers, and of a list of arguments.\<close>

fun maxNumber :: "number \<Rightarrow> number \<Rightarrow> number" where
  "maxNumber (Finite a) (Finite b) = Finite (max a b)"
| "maxNumber NaN b = NaN"
| "maxNumber a NaN = NaN"
| "maxNumber Infinity b = Infinity"
| "maxNumber a Infinity = Infinity"
| "maxNumber NegInfinity b = b"
| "maxNumber a NegInfinity = a"

fun minNumber :: "number \<Rightarrow> number \<Rightarrow> number" where
  "minNumber (Finite a) (Finite b) = Finite (min a b)"
| "minNumber NaN b = NaN"
| "minNumber a NaN = NaN"
| "minNumber NegInfinity b = NegInfinity"
| "minNumber a NegInfinity = NegInfinity"
| "minNumber Infinity b = b"
| "minNumber a Infinity = a"

definition mathMax :: "number list \<Rightarrow> number" where
  "mathMax ns = foldl maxNumber NegInfinity ns"

definition mathMin :: "number list \<Rightarrow> number" where
  "mathMin ns = foldl minNumber Infinity ns"

subsection \<open>Numbers as text\<close>

definition digitChar :: "int \<Rightarrow> char" where
  "digitChar d = char_of (48 + d)"

function decimal :: "int \<Rightarrow> string" where
  "decimal n = (if n < 10 then [digitChar n] else decimal (n div 10) @ [digitChar (n mod 10)])"
  by pat_completeness auto
termination
  by (relation "measure nat") auto

declare decimal.simps [simp del]

text \<open>
  \<open>x.toFixed(f)\<close> as ECMAScript defines it. For a finite \<open>x\<close>: the sign, then the integer
  \<open>n\<close> nearest to \<open>x * 10^f\<close> (the larger one of two), in decimal digits, padded with zeros
  to \<open>f + 1\<close> digits, with a point before the last \<open>f\<close> digits. From \<open>10^21\<close> on the result
  is \<open>Number::toString\<close>, a parameter here. A number that is not finite gives its name.
\<close>

definition toFixed :: "(rat \<Rightarrow> string) \<Rightarrow> nat \<Rightarrow> rat \<Rightarrow> string" where
  "toFixed numberToString f x =
     (if 10 ^ 21 \<le> \<bar>x\<bar> then numberToString x
      else
        let m = decimal \<lfloor>\<bar>x\<bar> * 10 ^ f + 1 / 2\<rfloor>;
            m' = replicate (f + 1 - length m) CHR ''0'' @ m;
            k = length m'
        in (if x < 0 then ''-'' else '''') @
           (if f = 0 then m else take (k - f) m' @ ''.'' @ drop (k - f) m'))"

fun toFixedNumber :: "(rat \<Rightarrow> string) \<Rightarrow> nat \<Rightarrow> number \<Rightarrow> string" where
  "toFixedNumber numberToString f (Finite x) = toFixed numberToString f x"
| "toFixedNumber numberToString f NaN = ''NaN''"
| "toFixedNumber numberToString f Infinity = ''Infinity''"
| "toFixedNumber numberToString f NegInfinity = ''-Infinity''"

section \<open>JSON values and JavaScript operations on them\<close>

text \<open>
  A request or response body after \<open>JSON.parse\<close>. A number literal is parsed to the
  nearest double, an infinity when it is out of range (\<open>1e999\<close>). \<open>JNum x\<close> is the finite
  number \<open>x\<close>. The pairs of an object are its members in the order of the text; where a
  key is repeated the last member counts, as in \<open>JSON.parse\<close>.
\<close>

datatype json =
    JNull
  | JBool bool
  | JNumber number
  | JStr string
  | JArr "json list"
  | JObj "(string \<times> json) list"

abbreviation JNum :: "rat \<Rightarrow> json" where
  "JNum x \<equiv> JNumber (Finite x)"

text \<open>
  The value of a property read is a \<^typ>\<open>json option\<close>: \<open>None\<close> is \<open>undefined\<close>.
  \<open>truthy\<close> is the conversion to a boolean that \<open>!\<close>, \<open>||\<close> and \<open>if\<close> apply.
\<close>

fun truthy :: "json \<Rightarrow> bool" where
  "truthy JNull = False"
| "truthy (JBool b) = b"
| "truthy (JNumber (Finite x)) = (x \<noteq> 0)"
| "truthy (JNumber NaN) = False"
| "truthy (JNumber n) = True"
| "truthy (JStr s) = (s \<noteq> [])"
| "truthy (JArr xs) = True"
| "truthy (JObj props) = True"

definition truthyVal :: "json option \<Rightarrow> bool" where
  "truthyVal v = (case v of None \<Rightarrow> False | Some x \<Rightarrow> truthy x)"

text \<open>\<open>v || d\<close> for a default \<open>d\<close>.\<close>

definition orElse :: "json option \<Rightarrow> json \<Rightarrow> json" where
  "orElse v d = (case v of None \<Rightarrow> d | Some x \<Rightarrow> if truthy x then x else d)"

text \<open>
  Every value that the program throws or catches is an \<open>Error\<close> instance with a message.
  The messages of the errors that the runtime itself throws (\<open>TypeError\<close>,
  \<open>SyntaxError\<close>) are worded by the runtime; the wording below stands for it.
\<close>

datatype js_error = TypeError string | SyntaxError string | Error string

fun message :: "js_error \<Rightarrow> string" where
  "message (TypeError m) = m"
| "message (SyntaxError m) = m"
| "message (Error m) = m"

text \<open>
  \<open>v.k\<close> for a value \<open>v\<close> other than \<open>null\<close>, for the keys that the program reads
  (\<open>Pulse\<close>, \<open>Breath\<close>, \<open>Time\<close>, \<open>Image\<close>, \<open>text\<close>, \<open>voice\<close>, \<open>timestamp\<close>,
  \<open>candidates\<close>, \<open>content\<close>, \<open>parts\<close>, \<open>0\<close> and \<open>length\<close>): an object has its own
  members, an array and a string have their first element and their length, a number and
  a boolean have none of them. Reading a property of \<open>null\<close> throws a \<open>TypeError\<close>;
  each caller tests for \<open>null\<close> before it reads.
\<close>

fun getProp :: "json \<Rightarrow> string \<Rightarrow> json option" where
  "getProp (JObj props) k = map_of (rev props) k"
| "getProp (JArr xs) k =
     (if k = ''0'' then (case xs of [] \<Rightarrow> None | x # _ \<Rightarrow> Some x)
      else if k = ''length'' then Some (JNum (of_nat (length xs)))
      else None)"
| "getProp (JStr s) k =
     (if k = ''0'' then (case s of [] \<Rightarrow> None | c # _ \<Rightarrow> Some (JStr [c]))
      else if k = ''length'' then Some (JNum (of_nat (length s)))
      else None)"
| "getProp v k = None"

text \<open>\<open>v?.k\<close>: \<open>undefined\<close> when \<open>v\<close> is \<open>undefined\<close> or \<open>null\<close>.\<close>

definition optChain :: "json option \<Rightarrow> string \<Rightarrow> json option" where
  "optChain v k = (case v of None \<Rightarrow> None | Some JNull \<Rightarrow> None | Some x \<Rightarrow> getProp x k)"

text \<open>
  The conversion of a value to a string (in a template literal) or to a primitive (by
  \<open>+\<close>, \<open>>\<close>, \<open>Math.max\<close>) throws a \<open>TypeError\<close> for an object that has a member named
  \<open>toString\<close>: the member of a parsed object is never a function, and the inherited
  \<open>valueOf\<close> returns the object. An array is converted by \<open>join\<close>, which converts its
  elements other than \<open>null\<close>. Every other value has a text.
\<close>

fun toStringThrows :: "json \<Rightarrow> bool" where
  "toStringThrows (JObj props) = (''toString'' \<in> set (map fst props))"
| "toStringThrows (JArr xs) = list_ex toStringThrows xs"
| "toStringThrows v = False"

definition conversionError :: js_error where
  "conversionError = TypeError ''Cannot convert object to primitive value''"

text \<open>
  \<open>JSON.stringify\<close> of a value in a response body, as the client parses it: a number that
  is not finite becomes \<open>null\<close>.
\<close>

fun stringified :: "json \<Rightarrow> json" where
  "stringified (JNumber (Finite x)) = JNumber (Finite x)"
| "stringified (JNumber n) = JNull"
| "stringified (JArr xs) = JArr (map stringified xs)"
| "stringified (JObj props) = JObj (map (\<lambda>p. (fst p, stringified (snd p))) props)"
| "stringified v = v"

definition stringifiedNumber :: "number \<Rightarrow> json" where
  "stringifiedNumber n = stringified (JNumber n)"

text \<open>
  The three statistics of the summary as numbers, and as the response carries them:
  the average as the text of \<open>toFixed(1)\<close>.
\<close>

record pulse_statistics =
  avgValue :: number
  maxValue :: number
  minValue :: number

record statistics =
  avgHeartRate :: string
  maxHeartRate :: json
  minHeartRate :: json

text \<open>
  What the runtime decides and the model does not: the text of a number from \<open>10^21\<close> on,
  the comparison \<open>v > 0\<close> for a string, an array or an object \<open>v\<close> that converts to a
  primitive, and the statistics of a body in which some \<open>Pulse\<close> is neither a number nor
  falsy and converts to a primitive (JavaScript then adds and compares after conversions
  between strings and numbers). Limits of the runtime on the size of a string, of an
  argument list or of the call stack are not modelled.
\<close>

record engine =
  numberToString :: "rat \<Rightarrow> string"
  coercedPositive :: "json \<Rightarrow> bool"
  coercedStatistics :: "json list \<Rightarrow> pulse_statistics"

section \<open>The upstream services\<close>

text \<open>
  The text of a prompt is fixed prose around the values it interpolates; a prompt is
  modelled by its template and these values.
\<close>

record summary_line =
  lineTime :: string
  lineHr :: json
  lineBr :: json

datatype prompt =
    FactsPrompt json json
  | SuggestionsPrompt json json
  | SummaryPrompt "summary_line list" nat string string number number

text \<open>
  A request to the generation service: prompt, inline image, temperature and
  \<open>maxOutputTokens\<close>. A request to the speech service: voice and text.
\<close>

datatype request =
    GeminiGenerate prompt "string option" rat nat
  | ElevenLabsSpeech json json

text \<open>
  A response of a service. Reading its body can fail: \<open>bodyText\<close> is the outcome of
  \<open>await response.text()\<close>, \<open>bodyJson\<close> the outcome of parsing the body as JSON
  (\<open>JSON.parse\<close> of the text, \<open>await response.json()\<close>), \<open>bodyBytes\<close> the outcome of
  \<open>await response.arrayBuffer()\<close>.
\<close>

record upstream_response =
  ok :: bool
  status :: nat
  statusText :: string
  bodyText :: "js_error + string"
  bodyJson :: "js_error + json"
  bodyBytes :: "js_error + 8 word list"

text \<open>
  The network answers the \<open>n\<close>-th call of a request with a response, or \<open>fetch\<close> rejects.
  The calls made so far are a list of requests, passed through every function that calls
  \<open>fetch\<close>.
\<close>

type_synonym net = "nat \<Rightarrow> request \<Rightarrow> js_error + upstream_response"

definition fetch :: "net \<Rightarrow> request \<Rightarrow> request list \<Rightarrow> (js_error + upstream_response) \<times> request list" where
  "fetch network req calls = (network (length calls) req, calls @ [req])"

section \<open>Responses of the handlers\<close>

datatype analysis_entry =
    AnalysisError string json json json
  | AnalysisOk string string json json json

fun entryTimestamp :: "analysis_entry \<Rightarrow> json" where
  "entryTimestamp (AnalysisError err timestamp heartRate breathRate) = timestamp"
| "entryTimestamp (AnalysisOk analysis expression timestamp heartRate breathRate) = timestamp"

datatype speech_entry =
    SpeechError string "string option" json
  | SpeechAudio string json string

text \<open>
  The body of a response, as the client parses it: \<open>{error}\<close>;
  \<open>{results, totalProcessed}\<close> of the analysis; raw audio; \<open>{results, totalProcessed}\<close> of
  the batch speech; \<open>{summary}\<close>; \<open>{summary, eventCount, duration, statistics}\<close>. The
  \<open>stack\<close> field that \<open>handleAnalyze\<close> adds to an error body is left out.
\<close>

datatype response_body =
    ErrorBody string
  | AnalyzeBody "analysis_entry list" nat
  | AudioBody "8 word list"
  | BatchBody "speech_entry list" nat
  | PlaceholderBody string
  | SummaryBody json nat "json option" statistics

record response =
  statusCode :: nat
  contentType :: string
  payload :: response_body

definition jsonResponse :: "nat \<Rightarrow> response_body \<Rightarrow> response" where
  "jsonResponse code b = \<lparr>statusCode = code, contentType = ''application/json'', payload = b\<rparr>"

section \<open>The analysis handler\<close>

text \<open>
  \<open>buildVisionPrompt\<close>: the template literal of the metrics converts both rates to
  strings.
\<close>

definition buildVisionPrompt :: "json \<Rightarrow> json \<Rightarrow> string \<Rightarrow> js_error + prompt" where
  "buildVisionPrompt heartRate breathRate contentMode =
     (if toStringThrows heartRate \<or> toStringThrows breathRate then Inl conversionError
      else if contentMode = ''facts'' then Inr (FactsPrompt heartRate breathRate)
      else Inr (SuggestionsPrompt heartRate breathRate))"

fun stripPrefix :: "string \<Rightarrow> string \<Rightarrow> string option" where
  "stripPrefix [] s = Some s"
| "stripPrefix (p # ps) [] = None"
| "stripPrefix (p # ps) (c # cs) = (if p = c then stripPrefix ps cs else None)"

definition isLowerLetter :: "char \<Rightarrow> bool" where
  "isLowerLetter c = (97 \<le> charCode c \<and> charCode c \<le> 122)"

text \<open>\<open>imageBase64.replace(/^data:image\/[a-z]+;base64,/, '')\<close>.\<close>

definition stripDataUrl :: "string \<Rightarrow> string" where
  "stripDataUrl s =
     (case stripPrefix ''data:image/'' s of
        None \<Rightarrow> s
      | Some r \<Rightarrow>
          if takeWhile isLowerLetter r = [] then s
          else (case stripPrefix '';base64,'' (dropWhile isLowerLetter r) of
                  None \<Rightarrow> s
                | Some data \<Rightarrow> data))"

text \<open>\<open>n > 0\<close> for a number.\<close>

fun numberPositive :: "number \<Rightarrow> bool" where
  "numberPositive (Finite x) = (0 < x)"
| "numberPositive Infinity = True"
| "numberPositive n = False"

text \<open>\<open>imageBase64.length > 0\<close>, for a truthy \<open>imageBase64\<close>.\<close>

definition lengthPositive :: "engine \<Rightarrow> json \<Rightarrow> js_error + bool" where
  "lengthPositive eng v =
     (case getProp v ''length'' of
        None \<Rightarrow> Inr False
      | Some JNull \<Rightarrow> Inr False
      | Some (JBool b) \<Rightarrow> Inr b
      | Some (JNumber n) \<Rightarrow> Inr (numberPositive n)
      | Some w \<Rightarrow> if toStringThrows w then Inl conversionError else Inr (coercedPositive eng w))"

text \<open>
  The image part of the request: none unless \<open>imageBase64 && imageBase64.length > 0\<close>;
  then the text without its data URL prefix; \<open>replace\<close> of a value that is not a string
  is not a function.
\<close>

definition inlineImage :: "engine \<Rightarrow> json \<Rightarrow> js_error + string option" where
  "inlineImage eng imageBase64 =
     (if \<not> truthy imageBase64 then Inr None
      else case lengthPositive eng imageBase64 of
        Inl e \<Rightarrow> Inl e
      | Inr positive \<Rightarrow>
          if \<not> positive then Inr None
          else (case imageBase64 of
                  JStr s \<Rightarrow> Inr (Some (stripDataUrl s))
                | _ \<Rightarrow> Inl (TypeError ''imageBase64.replace is not a function'')))"

datatype analysis_result = Failure string | Success string string

text \<open>\<open>candidates[0]?.content?.parts?.[0]?.text\<close>, for a truthy \<open>candidates\<close>.\<close>

definition candidateText :: "json \<Rightarrow> json option" where
  "candidateText candidates =
     optChain (optChain (optChain (optChain (getProp candidates ''0'') ''content'') ''parts'') ''0'')
       ''text''"

text \<open>
  The analysis text: when the full text has a period, the text after the first period,
  trimmed (\<open>parts.slice(1).join('.').trim()\<close>); else the full text.
\<close>

definition analysisTextOf :: "string \<Rightarrow> string" where
  "analysisTextOf fullText =
     (if CHR ''.'' \<in> set fullText
      then trim (tl (dropWhile (\<lambda>c. c \<noteq> CHR ''.'') fullText))
      else fullText)"

text \<open>The part of \<open>analyzeWithGemini\<close> after \<open>JSON.parse\<close>.\<close>

definition interpretGemini :: "json \<Rightarrow> js_error + analysis_result" where
  "interpretGemini geminiData =
     (if geminiData = JNull
      then Inl (TypeError ''Cannot read properties of null (reading candidates)'')
      else case getProp geminiData ''candidates'' of
        None \<Rightarrow> Inr (Failure ''Invalid response from Gemini API'')
      | Some candidates \<Rightarrow>
          if \<not> truthy candidates \<or> \<not> truthyVal (candidateText candidates)
          then Inr (Failure ''Invalid response from Gemini API'')
          else (case candidateText candidates of
                  Some (JStr s) \<Rightarrow>
                    let fullText = trim s
                    in Inr (Success (analysisTextOf fullText) (extractExpression fullText))
                | _ \<Rightarrow> Inl (TypeError ''text.trim is not a function'')))"

text \<open>
  \<open>analyzeWithGemini\<close>: its body is one \<open>try\<close> whose \<open>catch\<close> returns a failure with the
  message of the error, so it always returns a result.
\<close>

definition analyzeWithGemini ::
  "engine \<Rightarrow> net \<Rightarrow> json \<Rightarrow> json \<Rightarrow> json \<Rightarrow> string \<Rightarrow> request list \<Rightarrow> analysis_result \<times> request list" where
  "analyzeWithGemini eng network heartRate breathRate imageBase64 contentMode calls =
     (case buildVisionPrompt heartRate breathRate contentMode of
        Inl e \<Rightarrow> (Failure (message e), calls)
      | Inr visionPrompt \<Rightarrow>
          (case inlineImage eng imageBase64 of
             Inl e \<Rightarrow> (Failure (message e), calls)
           | Inr inlineData \<Rightarrow>
               (case fetch network (GeminiGenerate visionPrompt inlineData (7 / 10) 100) calls of
                  (Inl e, calls') \<Rightarrow> (Failure (message e), calls')
                | (Inr geminiResponse, calls') \<Rightarrow>
                    (case bodyText geminiResponse of
                       Inl e \<Rightarrow> (Failure (message e), calls')
                     | Inr responseText \<Rightarrow>
                         if \<not> ok geminiResponse
                         then (Failure (''Gemini API error: '' @
                                        decimal (int (status geminiResponse)) @ '' '' @
                                        statusText geminiResponse), calls')
                         else (case bodyJson geminiResponse of
                                 Inl e \<Rightarrow> (Failure (message e), calls')
                               | Inr geminiData \<Rightarrow>
                                   (case interpretGemini geminiData of
                                      Inl e \<Rightarrow> (Failure (message e), calls')
                                    | Inr r \<Rightarrow> (r, calls')))))))"

text \<open>
  The loop of \<open>handleAnalyze\<close> over the metrics, pushing one entry for each.
  \<open>metric.Pulse\<close> throws when the metric is \<open>null\<close>, and the template literal of
  \<open>console.log\<close> converts the heart rate, the breath rate and the timestamp to strings:
  both outside \<open>analyzeWithGemini\<close>. An entry is written as the response carries it.
\<close>

fun analyzeLoop ::
  "engine \<Rightarrow> net \<Rightarrow> string \<Rightarrow> json list \<Rightarrow> analysis_entry list \<Rightarrow> request list \<Rightarrow>
   (js_error + analysis_entry list) \<times> request list" where
  "analyzeLoop eng network contentMode [] analyses calls = (Inr analyses, calls)"
| "analyzeLoop eng network contentMode (metric # rest) analyses calls =
     (if metric = JNull
      then (Inl (TypeError ''Cannot read properties of null (reading Pulse)''), calls)
      else
        let heartRate = orElse (getProp metric ''Pulse'') (JNum 0);
            breathRate = orElse (getProp metric ''Breath'') (JNum 0);
            timestamp = orElse (getProp metric ''Time'') (JNum 0);
            imageBase64 = orElse (getProp metric ''Image'') (JStr '''')
        in if toStringThrows heartRate \<or> toStringThrows breathRate \<or> toStringThrows timestamp
           then (Inl conversionError, calls)
           else
             (case analyzeWithGemini eng network heartRate breathRate imageBase64 contentMode
                     calls of
                (Failure err, calls') \<Rightarrow>
                  analyzeLoop eng network contentMode rest
                    (analyses @ [AnalysisError err (stringified timestamp)
                                   (stringified heartRate) (stringified breathRate)]) calls'
              | (Success analysis expression, calls') \<Rightarrow>
                  analyzeLoop eng network contentMode rest
                    (analyses @ [AnalysisOk analysis expression (stringified timestamp)
                                   (stringified heartRate) (stringified breathRate)]) calls'))"

text \<open>
  \<open>handleAnalyze\<close>, from the outcome of \<open>request.json()\<close> and the \<open>contentMode\<close> query
  parameter. Its body is one \<open>try\<close> whose \<open>catch\<close> answers 500, so it always returns a
  response, and the route \<open>/analyze\<close> returns that response.
\<close>

definition handleAnalyze ::
  "engine \<Rightarrow> net \<Rightarrow> js_error + json \<Rightarrow> string option \<Rightarrow> request list \<Rightarrow> response \<times> request list" where
  "handleAnalyze eng network requestJson contentModeParam calls =
     (case requestJson of
        Inl e \<Rightarrow> (jsonResponse 500 (ErrorBody (message e)), calls)
      | Inr (JArr metrics) \<Rightarrow>
          if metrics = []
          then (jsonResponse 400 (ErrorBody ''Invalid format: expected array of metrics''), calls)
          else
            let contentMode = (case contentModeParam of
                                 None \<Rightarrow> ''suggestions''
                               | Some m \<Rightarrow> if m = [] then ''suggestions'' else m)
            in (case analyzeLoop eng network contentMode metrics [] calls of
                  (Inl e, calls') \<Rightarrow> (jsonResponse 500 (ErrorBody (message e)), calls')
                | (Inr analyses, calls') \<Rightarrow>
                    (jsonResponse 200 (AnalyzeBody analyses (length metrics)), calls'))
      | Inr other \<Rightarrow>
          (jsonResponse 400 (ErrorBody ''Invalid format: expected array of metrics''), calls))"

section \<open>The speech handler\<close>

definition defaultVoice :: json where
  "defaultVoice = JStr ''pNInz6obpgDQGcFmaJgB''"

text \<open>
  \<open>handleSingleTTS\<close>. Destructuring \<open>null\<close> throws; the template literal of the URL
  converts the voice to a string before \<open>fetch\<close> is called; an error that \<open>fetch\<close> or
  the reading of the body rejects with, and the error thrown on a response that is not
  \<open>ok\<close>, leave the handler.
\<close>

definition handleSingleTTS ::
  "net \<Rightarrow> json \<Rightarrow> request list \<Rightarrow> (js_error + response) \<times> request list" where
  "handleSingleTTS network body calls =
     (if body = JNull
      then (Inl (TypeError ''Cannot destructure property text of null''), calls)
      else case getProp body ''text'' of
        None \<Rightarrow> (Inr (jsonResponse 400 (ErrorBody ''Text is required'')), calls)
      | Some textValue \<Rightarrow>
          if \<not> truthy textValue
          then (Inr (jsonResponse 400 (ErrorBody ''Text is required'')), calls)
          else
            let voiceId = orElse (getProp body ''voice'') defaultVoice
            in if toStringThrows voiceId then (Inl conversionError, calls)
               else
                 (case fetch network (ElevenLabsSpeech voiceId textValue) calls of
                    (Inl e, calls') \<Rightarrow> (Inl e, calls')
                  | (Inr elevenLabsResponse, calls') \<Rightarrow>
                      if \<not> ok elevenLabsResponse
                      then (case bodyText elevenLabsResponse of
                              Inl e \<Rightarrow> (Inl e, calls')
                            | Inr errorText \<Rightarrow>
                                (Inl (Error (''ElevenLabs API error: '' @
                                             statusText elevenLabsResponse @ '' - '' @
                                             errorText)), calls'))
                      else (case bodyBytes elevenLabsResponse of
                              Inl e \<Rightarrow> (Inl e, calls')
                            | Inr audioBuffer \<Rightarrow>
                                (Inr \<lparr>statusCode = 200, contentType = ''audio/mpeg'',
                                      payload = AudioBody audioBuffer\<rparr>, calls'))))"

text \<open>
  One pass of the loop of \<open>handleBatchTTS\<close> for an item that is not \<open>null\<close>: the entry
  pushed for the item, or the error that leaves the loop. An item without text makes no
  call. For an item with text, the template literal of \<open>console.log\<close> converts the
  timestamp to a string before the \<open>try\<close>; inside the \<open>try\<close>, the template literal of
  the URL converts the voice, and the \<open>catch\<close> turns every error into an entry.
\<close>

definition speakItem ::
  "net \<Rightarrow> json \<Rightarrow> request list \<Rightarrow> (js_error + speech_entry) \<times> request list" where
  "speakItem network item calls =
     (let voice = orElse (getProp item ''voice'') defaultVoice;
          timestamp = orElse (getProp item ''timestamp'') (JNum 0)
      in case getProp item ''text'' of
           None \<Rightarrow> (Inr (SpeechError ''Text is required'' None (stringified timestamp)), calls)
         | Some textValue \<Rightarrow>
             if \<not> truthy textValue
             then (Inr (SpeechError ''Text is required'' None (stringified timestamp)), calls)
             else if toStringThrows timestamp then (Inl conversionError, calls)
             else if toStringThrows voice
             then (Inr (SpeechError (message conversionError) None (stringified timestamp)), calls)
             else
               (case fetch network (ElevenLabsSpeech voice textValue) calls of
                  (Inl e, calls') \<Rightarrow>
                    (Inr (SpeechError (message e) None (stringified timestamp)), calls')
                | (Inr elevenLabsResponse, calls') \<Rightarrow>
                    if \<not> ok elevenLabsResponse
                    then (case bodyText elevenLabsResponse of
                            Inl e \<Rightarrow>
                              (Inr (SpeechError (message e) None (stringified timestamp)), calls')
                          | Inr errorText \<Rightarrow>
                              (Inr (SpeechError
                                      (''ElevenLabs API error: '' @ statusText elevenLabsResponse)
                                      (Some errorText) (stringified timestamp)), calls'))
                    else (case bodyBytes elevenLabsResponse of
                            Inl e \<Rightarrow>
                              (Inr (SpeechError (message e) None (stringified timestamp)), calls')
                          | Inr audioBuffer \<Rightarrow>
                              (Inr (SpeechAudio (arrayBufferToBase64 audioBuffer)
                                      (stringified timestamp) ''audio/mpeg''), calls'))))"

text \<open>The loop: \<open>item.text\<close> throws for an item that is \<open>null\<close>, outside the \<open>try\<close>.\<close>

fun batchLoop ::
  "net \<Rightarrow> json list \<Rightarrow> speech_entry list \<Rightarrow> request list \<Rightarrow>
   (js_error + speech_entry list) \<times> request list" where
  "batchLoop network [] audioResults calls = (Inr audioResults, calls)"
| "batchLoop network (item # rest) audioResults calls =
     (if item = JNull
      then (Inl (TypeError ''Cannot read properties of null (reading text)''), calls)
      else case speakItem network item calls of
             (Inl e, calls') \<Rightarrow> (Inl e, calls')
           | (Inr entry, calls') \<Rightarrow> batchLoop network rest (audioResults @ [entry]) calls')"

definition handleBatchTTS ::
  "net \<Rightarrow> json list \<Rightarrow> request list \<Rightarrow> (js_error + response) \<times> request list" where
  "handleBatchTTS network texts calls =
     (if texts = []
      then (Inr (jsonResponse 400 (ErrorBody ''No texts provided'')), calls)
      else case batchLoop network texts [] calls of
             (Inl e, calls') \<Rightarrow> (Inl e, calls')
           | (Inr audioResults, calls') \<Rightarrow>
               (Inr (jsonResponse 200 (BatchBody audioResults (length texts))), calls'))"

definition handleTTS ::
  "net \<Rightarrow> js_error + json \<Rightarrow> request list \<Rightarrow> (js_error + response) \<times> request list" where
  "handleTTS network requestJson calls =
     (case requestJson of
        Inl e \<Rightarrow> (Inl e, calls)
      | Inr (JArr texts) \<Rightarrow> handleBatchTTS network texts calls
      | Inr body \<Rightarrow> handleSingleTTS network body calls)"

section \<open>The summary handler\<close>

text \<open>
  One line of \<open>eventsSummary\<close>: \<open>toFixed\<close> of a \<open>Time\<close> that is not a number is not a
  function, and the template literal of the line converts \<open>hr\<close> and \<open>br\<close> to strings.
\<close>

definition eventLine :: "engine \<Rightarrow> json \<Rightarrow> js_error + summary_line" where
  "eventLine eng metric =
     (if metric = JNull
      then Inl (TypeError ''Cannot read properties of null (reading Pulse)'')
      else
        let hr = orElse (getProp metric ''Pulse'') (JStr ''N/A'');
            br = orElse (getProp metric ''Breath'') (JStr ''N/A'');
            rendered = (\<lambda>time.
              if toStringThrows hr \<or> toStringThrows br then Inl conversionError
              else Inr \<lparr>lineTime = time, lineHr = hr, lineBr = br\<rparr>)
        in case getProp metric ''Time'' of
             None \<Rightarrow> rendered ''N/A''
           | Some JNull \<Rightarrow> rendered ''N/A''
           | Some (JNumber n) \<Rightarrow>
               let fixed = toFixedNumber (numberToString eng) 2 n
               in rendered (if fixed = [] then ''N/A'' else fixed)
           | Some other \<Rightarrow> Inl (TypeError ''metric.Time?.toFixed is not a function''))"

text \<open>\<open>body.map(...)\<close>: the lines in order, up to the first error.\<close>

fun eventLines :: "engine \<Rightarrow> json list \<Rightarrow> js_error + summary_line list" where
  "eventLines eng [] = Inr []"
| "eventLines eng (metric # rest) =
     (case eventLine eng metric of
        Inl e \<Rightarrow> Inl e
      | Inr line \<Rightarrow>
          (case eventLines eng rest of Inl e \<Rightarrow> Inl e | Inr ls \<Rightarrow> Inr (line # ls)))"

text \<open>\<open>m.Pulse || 0\<close>.\<close>

definition pulseOrZero :: "json \<Rightarrow> json" where
  "pulseOrZero m = orElse (getProp m ''Pulse'') (JNum 0)"

text \<open>The values \<open>m.Pulse || 0\<close> when each of them is a number.\<close>

fun numericPulses :: "json list \<Rightarrow> number list option" where
  "numericPulses [] = Some []"
| "numericPulses (m # ms) =
     (case pulseOrZero m of
        JNumber n \<Rightarrow> (case numericPulses ms of None \<Rightarrow> None | Some ns \<Rightarrow> Some (n # ns))
      | _ \<Rightarrow> None)"

text \<open>
  The statistics: \<open>reduce\<close> adds the values to 0 from left to right and the sum is
  divided by \<open>body.length\<close>, in double arithmetic; \<open>Math.max\<close> and \<open>Math.min\<close> of the
  same values. Adding or comparing a value that has no primitive throws.
\<close>

definition statisticsOf :: "engine \<Rightarrow> json list \<Rightarrow> js_error + pulse_statistics" where
  "statisticsOf eng body =
     (if list_ex (\<lambda>m. toStringThrows (pulseOrZero m)) body then Inl conversionError
      else case numericPulses body of
        Some ns \<Rightarrow>
          Inr \<lparr>avgValue = divideByCount (foldl (\<lambda>sum n. addNumber sum n) (Finite 0) ns)
                             (length body),
               maxValue = mathMax ns,
               minValue = mathMin ns\<rparr>
      | None \<Rightarrow> Inr (coercedStatistics eng body))"

text \<open>\<open>body[body.length - 1].Time.toFixed(0)\<close>, for a body that is not empty.\<close>

definition durationText :: "engine \<Rightarrow> json list \<Rightarrow> js_error + string" where
  "durationText eng body =
     (if last body = JNull
      then Inl (TypeError ''Cannot read properties of null (reading Time)'')
      else case getProp (last body) ''Time'' of
        None \<Rightarrow> Inl (TypeError ''Cannot read properties of undefined (reading toFixed)'')
      | Some JNull \<Rightarrow> Inl (TypeError ''Cannot read properties of null (reading toFixed)'')
      | Some (JNumber n) \<Rightarrow> Inr (toFixedNumber (numberToString eng) 0 n)
      | Some other \<Rightarrow> Inl (TypeError ''Time.toFixed is not a function''))"

text \<open>The statistics as the response carries them.\<close>

definition statisticsBody :: "engine \<Rightarrow> pulse_statistics \<Rightarrow> statistics" where
  "statisticsBody eng stats =
     \<lparr>avgHeartRate = toFixedNumber (numberToString eng) 1 (avgValue stats),
      maxHeartRate = stringifiedNumber (maxValue stats),
      minHeartRate = stringifiedNumber (minValue stats)\<rparr>"

text \<open>The part of \<open>handleSummary\<close> after the response of the service has arrived.\<close>

definition summaryResponse ::
  "engine \<Rightarrow> json list \<Rightarrow> pulse_statistics \<Rightarrow> upstream_response \<Rightarrow> js_error + response" where
  "summaryResponse eng body stats geminiResponse =
     (if \<not> ok geminiResponse
      then (case bodyText geminiResponse of
              Inl e \<Rightarrow> Inl e
            | Inr errorText \<Rightarrow>
                Inl (Error (''Gemini API error: '' @ statusText geminiResponse @ '' - '' @
                            errorText)))
      else case bodyJson geminiResponse of
        Inl e \<Rightarrow> Inl e
      | Inr geminiData \<Rightarrow>
          if geminiData = JNull
          then Inl (TypeError ''Cannot read properties of null (reading candidates)'')
          else (case getProp geminiData ''candidates'' of
                  None \<Rightarrow> Inl (Error ''Invalid response from Gemini API'')
                | Some candidates \<Rightarrow>
                    if \<not> truthy candidates \<or> \<not> truthyVal (candidateText candidates)
                    then Inl (Error ''Invalid response from Gemini API'')
                    else (case candidateText candidates of
                            None \<Rightarrow> Inl (Error ''Invalid response from Gemini API'')
                          | Some summary \<Rightarrow>
                              Inr (jsonResponse 200
                                     (SummaryBody (stringified summary) (length body)
                                        (map_option stringified (getProp (last body) ''Time''))
                                        (statisticsBody eng stats))))))"

definition handleSummary ::
  "engine \<Rightarrow> net \<Rightarrow> js_error + json \<Rightarrow> request list \<Rightarrow> (js_error + response) \<times> request list" where
  "handleSummary eng network requestJson calls =
     (case requestJson of
        Inl e \<Rightarrow> (Inl e, calls)
      | Inr (JArr body) \<Rightarrow>
          if body = []
          then (Inr (jsonResponse 200
                       (PlaceholderBody ''No data was collected during this session.'')), calls)
          else (case eventLines eng body of
                  Inl e \<Rightarrow> (Inl e, calls)
                | Inr eventsSummary \<Rightarrow>
                    (case statisticsOf eng body of
                       Inl e \<Rightarrow> (Inl e, calls)
                     | Inr stats \<Rightarrow>
                         (case durationText eng body of
                            Inl e \<Rightarrow> (Inl e, calls)
                          | Inr duration \<Rightarrow>
                              (case fetch network
                                      (GeminiGenerate
                                         (SummaryPrompt eventsSummary (length body) duration
                                            (toFixedNumber (numberToString eng) 1 (avgValue stats))
                                            (minValue stats) (maxValue stats))
                                         None (8 / 10) 300)
                                      calls of
                                 (Inl e, calls') \<Rightarrow> (Inl e, calls')
                               | (Inr geminiResponse, calls') \<Rightarrow>
                                   (summaryResponse eng body stats geminiResponse, calls')))))
      | Inr other \<Rightarrow>
          (Inr (jsonResponse 200
                  (PlaceholderBody ''No data was collected during this session.'')), calls))"

section \<open>The routes\<close>

text \<open>
  A route of \<open>index.ts\<close> returns the response of its handler; its \<open>catch\<close> answers an
  error that leaves the handler with status 500 and the message of the error.
\<close>

definition route :: "(js_error + response) \<times> request list \<Rightarrow> response \<times> request list" where
  "route outcome =
     (case outcome of
        (Inl e, calls) \<Rightarrow> (jsonResponse 500 (ErrorBody (message e)), calls)
      | (Inr resp, calls) \<Rightarrow> (resp, calls))"

definition routeTts :: "net \<Rightarrow> js_error + json \<Rightarrow> request list \<Rightarrow> response \<times> request list" where
  "routeTts network requestJson calls = route (handleTTS network requestJson calls)"

definition routeSummary ::
  "engine \<Rightarrow> net \<Rightarrow> js_error + json \<Rightarrow> request list \<Rightarrow> response \<times> request list" where
  "routeSummary eng network requestJson calls = route (handleSummary eng network requestJson calls)"

section \<open>Notions used to state the properties\<close>

text \<open>
  The values that the loop of the analysis converts to strings have a text: the heart
  rate, the breath rate and the timestamp of a metric.
\<close>

definition loggableMetric :: "json \<Rightarrow> bool" where
  "loggableMetric metric \<longleftrightarrow>
     \<not> toStringThrows (orElse (getProp metric ''Pulse'') (JNum 0)) \<and>
     \<not> toStringThrows (orElse (getProp metric ''Breath'') (JNum 0)) \<and>
     \<not> toStringThrows (orElse (getProp metric ''Time'') (JNum 0))"

text \<open>An entry of the analysis results carries the timestamp and the rates of a metric.\<close>

fun entryHeartRate :: "analysis_entry \<Rightarrow> json" where
  "entryHeartRate (AnalysisError err timestamp heartRate breathRate) = heartRate"
| "entryHeartRate (AnalysisOk analysis expression timestamp heartRate breathRate) = heartRate"

fun entryBreathRate :: "analysis_entry \<Rightarrow> json" where
  "entryBreathRate (AnalysisError err timestamp heartRate breathRate) = breathRate"
| "entryBreathRate (AnalysisOk analysis expression timestamp heartRate breathRate) = breathRate"

definition entryOf :: "json \<Rightarrow> analysis_entry \<Rightarrow> bool" where
  "entryOf metric entry \<longleftrightarrow>
     entryTimestamp entry = stringified (orElse (getProp metric ''Time'') (JNum 0)) \<and>
     entryHeartRate entry = stringified (orElse (getProp metric ''Pulse'') (JNum 0)) \<and>
     entryBreathRate entry = stringified (orElse (getProp metric ''Breath'') (JNum 0))"

text \<open>
  The request that the batch loop sends for an item: none for an item without a truthy
  \<open>text\<close>.
\<close>

definition speechRequest :: "json \<Rightarrow> request option" where
  "speechRequest item =
     (case getProp item ''text'' of
        None \<Rightarrow> None
      | Some textValue \<Rightarrow>
          if truthy textValue
          then Some (ElevenLabsSpeech (orElse (getProp item ''voice'') defaultVoice) textValue)
          else None)"

text \<open>
  A valid item of a batch: it has a text, and its voice and its timestamp have a string
  form.
\<close>

definition validSpeechItem :: "json \<Rightarrow> bool" where
  "validSpeechItem item \<longleftrightarrow>
     truthyVal (getProp item ''text'') \<and>
     \<not> toStringThrows (orElse (getProp item ''voice'') defaultVoice) \<and>
     \<not> toStringThrows (orElse (getProp item ''timestamp'') (JNum 0))"

text \<open>The pulse of a sample as a finite number, 0 when the sample has none.\<close>

definition pulseValue :: "json \<Rightarrow> rat" where
  "pulseValue m = (case getProp m ''Pulse'' of Some (JNumber (Finite p)) \<Rightarrow> p | _ \<Rightarrow> 0)"

text \<open>The \<open>Pulse\<close> of a sample is a finite number, or is missing (absent or falsy).\<close>

definition pulseFiniteOrMissing :: "json \<Rightarrow> bool" where
  "pulseFiniteOrMissing m =
     (case getProp m ''Pulse'' of Some (JNumber (Finite p)) \<Rightarrow> True | v \<Rightarrow> \<not> truthyVal v)"

text \<open>
  The mean of finite numbers in double arithmetic: the sum, rounded after every
  addition, divided by the count and rounded.
\<close>

definition doubleMean :: "rat list \<Rightarrow> number" where
  "doubleMean ps = divideByCount (foldl addNumber (Finite 0) (map Finite ps)) (length ps)"

subsection \<open>A sample engine and network\<close>

text \<open>
  Concrete parameters at which the properties are evaluated: a generation service that
  answers every call with the text \<open>Calm. Keep a steady pace.\<close>, and a speech service
  that answers every call with three bytes of audio.
\<close>

definition sampleEngine :: engine where
  "sampleEngine =
     \<lparr>numberToString = (\<lambda>x. ''1e+21''),
      coercedPositive = (\<lambda>v. False),
      coercedStatistics = (\<lambda>body. \<lparr>avgValue = NaN, maxValue = NaN, minValue = NaN\<rparr>)\<rparr>"

definition geminiAnswer :: json where
  "geminiAnswer =
     JObj [(''candidates'',
            JArr [JObj [(''content'',
                         JObj [(''parts'', JArr [JObj [(''text'', JStr ''Calm. Keep a steady pace.'')]])])]])]"

definition sampleNet :: net where
  "sampleNet n req =
     (case req of
        GeminiGenerate p inlineData temperature maxOutputTokens \<Rightarrow>
          Inr \<lparr>ok = True, status = 200, statusText = ''OK'', bodyText = Inr '''',
               bodyJson = Inr geminiAnswer, bodyBytes = Inr []\<rparr>
      | ElevenLabsSpeech voice textValue \<Rightarrow>
          Inr \<lparr>ok = True, status = 200, statusText = ''OK'', bodyText = Inr '''',
               bodyJson = Inl (SyntaxError ''Unexpected token''), bodyBytes = Inr [73, 68, 51]\<rparr>)"

text \<open>A speech service that refuses every call.\<close>

definition refusingNet :: net where
  "refusingNet n req =
     Inr \<lparr>ok = False, status = 401, statusText = ''Unauthorized'',
          bodyText = Inr ''invalid api key'',
          bodyJson = Inl (SyntaxError ''Unexpected token''), bodyBytes = Inr []\<rparr>"

text \<open>A speech service that answers with an error status and a body that cannot be read.\<close>

definition unreadableNet :: net where
  "unreadableNet n req =
     Inr \<lparr>ok = False, status = 502, statusText = ''Bad Gateway'',
          bodyText = Inl (TypeError ''terminated''),
          bodyJson = Inl (TypeError ''terminated''),
          bodyBytes = Inl (TypeError ''terminated'')\<rparr>"

section \<open>Properties of the expression extraction\<close>

lemma includesStr_iff_sublist: "includesStr s t \<longleftrightarrow> sublist t s"
  by (induction s) (simp_all add: sublist_Cons_right)

lemma scanKeywords_None:
  "scanKeywords kws s = None \<longleftrightarrow> (\<forall>e\<in>set kws. \<not> includesStr s e)"
  by (induction kws) simp_all

lemma scanKeywords_Some: "scanKeywords kws s = Some e \<Longrightarrow> isFirstMatch kws s e"
proof (induction kws)
  case Nil
  then show ?case by simp
next
  case (Cons k kws)
  show ?case
  proof (cases "includesStr s k")
    case True
    with Cons.prems have "e = k" by simp
    with True show ?thesis unfolding isFirstMatch_def by (intro exI [of _ 0]) simp
  next
    case False
    with Cons have "isFirstMatch kws s e" by simp
    then obtain i where i: "i < length kws" "kws ! i = e" "includesStr s e"
      "\<forall>j<i. \<not> includesStr s (kws ! j)"
      unfolding isFirstMatch_def by blast
    have "\<forall>j<Suc i. \<not> includesStr s ((k # kws) ! j)"
      using False i(4) by (auto simp: less_Suc_eq_0_disj)
    with i show ?thesis unfolding isFirstMatch_def by (intro exI [of _ "Suc i"]) simp
  qed
qed

lemma isFirstMatch_mem: "isFirstMatch kws s e \<Longrightarrow> e \<in> set kws"
  unfolding isFirstMatch_def by auto

lemma keywords_lower: "w \<in> set emotionKeywords \<Longrightarrow> toLowerCase w = w"
  by (auto simp: emotionKeywords_def toLowerCase_def toLowerChar_def charCode_def)

lemma keywords_no_separator:
  "w \<in> set emotionKeywords \<Longrightarrow> \<forall>c\<in>set w. \<not> isSeparator c"
  by (auto simp: emotionKeywords_def isSeparator_def isWhiteSpace_def charCode_def)

lemma keywords_nonempty: "w \<in> set emotionKeywords \<Longrightarrow> w \<noteq> []"
  by (auto simp: emotionKeywords_def)

lemma promptVocabulary_subset: "set promptVocabulary \<subseteq> set emotionKeywords"
  by (simp add: promptVocabulary_def emotionKeywords_def)

lemma trim_sublist: "sublist (trim s) s"
proof -
  have "suffix (dropWhile isWhiteSpace (rev (dropWhile isWhiteSpace s)))
          (rev (dropWhile isWhiteSpace s))"
    by (rule suffix_dropWhile)
  then have "prefix (trim s) (dropWhile isWhiteSpace s)"
    by (simp add: trim_def suffix_to_prefix)
  moreover have "suffix (dropWhile isWhiteSpace s) s" by (rule suffix_dropWhile)
  ultimately show ?thesis
    by (meson prefix_imp_sublist suffix_imp_sublist sublist_order.order.trans)
qed

lemma trim_keeps_head:
  assumes "\<forall>c\<in>set w. \<not> isWhiteSpace c" "\<not> isWhiteSpace d" "w \<noteq> []"
  shows "\<exists>r'. trim (w @ d # r) = w @ d # r'"
proof -
  obtain a w' where w: "w = a # w'" using assms(3) by (cases w) auto
  have 1: "dropWhile isWhiteSpace (w @ d # r) = w @ d # r"
    using assms(1) by (simp add: w)
  have "rev (dropWhile isWhiteSpace (rev (w @ d # r))) =
        (if \<forall>x\<in>set r. isWhiteSpace x then w @ [d]
         else w @ d # rev (dropWhile isWhiteSpace (rev r)))"
    using assms(2) by (simp add: dropWhile_append)
  then show ?thesis unfolding trim_def 1 by auto
qed

lemma firstWord_keyword:
  assumes "w \<in> set emotionKeywords"
  shows "firstWord (w @ CHR ''.'' # r) = w"
  using keywords_no_separator [OF assms]
  by (simp add: firstWord_def takeWhile_append isSeparator_def)

lemma extractExpression_leading:
  assumes w: "w \<in> set emotionKeywords"
  shows "extractExpression (w @ ''.'' @ rest) = w"
proof -
  have nows: "\<forall>c\<in>set w. \<not> isWhiteSpace c"
    using keywords_no_separator [OF w] by (simp add: isSeparator_def)
  have dot: "\<not> isWhiteSpace CHR ''.''"
    by (simp add: isWhiteSpace_def charCode_def)
  have "toLowerCase (w @ ''.'' @ rest) = w @ CHR ''.'' # toLowerCase rest"
    using keywords_lower [OF w] by (simp add: toLowerCase_def toLowerChar_def charCode_def)
  moreover obtain r' where "trim (w @ CHR ''.'' # toLowerCase rest) = w @ CHR ''.'' # r'"
    using trim_keeps_head [OF nows dot keywords_nonempty [OF w]] by blast
  ultimately have "firstWord (trim (toLowerCase (w @ ''.'' @ rest))) = w"
    using firstWord_keyword [OF w] by simp
  then show ?thesis using w by (simp add: extractExpression_def Let_def)
qed

lemma firstWord_sublist: "sublist (firstWord s) s"
  unfolding firstWord_def
  by (metis prefix_imp_sublist takeWhile_dropWhile_id prefixI)

lemma firstSentence_sublist: "sublist (firstSentence s) s"
  unfolding firstSentence_def
  by (metis prefix_imp_sublist takeWhile_dropWhile_id prefixI)

lemma extractExpression_neutral:
  assumes "\<forall>e\<in>set emotionKeywords. \<not> includesStr (toLowerCase analysisText) e"
  shows "extractExpression analysisText = ''neutral''"
proof -
  define l where "l = trim (toLowerCase analysisText)"
  have no: "\<not> sublist e l" if "e \<in> set emotionKeywords" for e
    using assms that trim_sublist [of "toLowerCase analysisText"]
    unfolding l_def includesStr_iff_sublist
    by (meson sublist_order.order.trans)
  have 1: "firstWord l \<notin> set emotionKeywords"
    using no firstWord_sublist by blast
  have 2: "scanKeywords emotionKeywords (firstSentence l) = None"
    unfolding scanKeywords_None includesStr_iff_sublist
    using no firstSentence_sublist by (meson sublist_order.order.trans)
  have 3: "scanKeywords emotionKeywords l = None"
    unfolding scanKeywords_None includesStr_iff_sublist using no by blast
  show ?thesis
    using 1 2 3 by (simp add: extractExpression_def l_def [symmetric])
qed

lemma extractExpression_cases:
  fixes analysisText :: string
  defines "l \<equiv> trim (toLowerCase analysisText)"
  shows "extractExpression analysisText \<in> set emotionKeywords"
    and "firstWord l \<in> set emotionKeywords \<Longrightarrow> extractExpression analysisText = firstWord l"
    and "firstWord l \<notin> set emotionKeywords \<Longrightarrow>
           \<exists>e\<in>set emotionKeywords. includesStr (firstSentence l) e \<Longrightarrow>
           isFirstMatch emotionKeywords (firstSentence l) (extractExpression analysisText)"
    and "firstWord l \<notin> set emotionKeywords \<Longrightarrow>
           \<forall>e\<in>set emotionKeywords. \<not> includesStr (firstSentence l) e \<Longrightarrow>
           \<exists>e\<in>set emotionKeywords. includesStr l e \<Longrightarrow>
           isFirstMatch emotionKeywords l (extractExpression analysisText)"
    and "firstWord l \<notin> set emotionKeywords \<Longrightarrow>
           \<forall>e\<in>set emotionKeywords. \<not> includesStr (firstSentence l) e \<Longrightarrow>
           \<forall>e\<in>set emotionKeywords. \<not> includesStr l e \<Longrightarrow>
           extractExpression analysisText = ''neutral''"
proof -
  have neutral: "''neutral'' \<in> set emotionKeywords" by (simp add: emotionKeywords_def)
  show "extractExpression analysisText \<in> set emotionKeywords"
    using neutral
    by (auto simp: extractExpression_def Let_def split: option.splits
             dest!: scanKeywords_Some isFirstMatch_mem)
  show "firstWord l \<in> set emotionKeywords \<Longrightarrow> extractExpression analysisText = firstWord l"
    by (simp add: extractExpression_def l_def)
  show "isFirstMatch emotionKeywords (firstSentence l) (extractExpression analysisText)"
    if "firstWord l \<notin> set emotionKeywords"
       "\<exists>e\<in>set emotionKeywords. includesStr (firstSentence l) e"
  proof -
    from that(2) obtain e where "scanKeywords emotionKeywords (firstSentence l) = Some e"
      using scanKeywords_None [of emotionKeywords "firstSentence l"] by auto
    then show ?thesis
      using that(1) scanKeywords_Some by (simp add: extractExpression_def l_def [symmetric])
  qed
  show "isFirstMatch emotionKeywords l (extractExpression analysisText)"
    if "firstWord l \<notin> set emotionKeywords"
       "\<forall>e\<in>set emotionKeywords. \<not> includesStr (firstSentence l) e"
       "\<exists>e\<in>set emotionKeywords. includesStr l e"
  proof -
    from that(3) obtain e where "scanKeywords emotionKeywords l = Some e"
      using scanKeywords_None [of emotionKeywords l] by auto
    moreover have "scanKeywords emotionKeywords (firstSentence l) = None"
      using that(2) by (simp add: scanKeywords_None)
    ultimately show ?thesis
      using that(1) scanKeywords_Some by (simp add: extractExpression_def l_def [symmetric])
  qed
  show "extractExpression analysisText = ''neutral''"
    if "firstWord l \<notin> set emotionKeywords"
       "\<forall>e\<in>set emotionKeywords. \<not> includesStr (firstSentence l) e"
       "\<forall>e\<in>set emotionKeywords. \<not> includesStr l e"
    using that by (simp add: extractExpression_def l_def [symmetric] scanKeywords_None [symmetric])
qed

text \<open>
  C2, as amended. A text that begins with a keyword followed by a period yields that
  keyword: any entry of the extractor's own list of 22 keywords, which contains the 16 words
  of the prompts. A text whose lower-cased form contains none of the 22 keywords yields
  \<open>neutral\<close>.
\<close>

theorem extractExpression_leading_keyword_or_neutral:
  "(w \<in> set promptVocabulary \<union> set emotionKeywords \<longrightarrow>
      extractExpression (w @ ''.'' @ rest) = w) \<and>
   ((\<forall>e\<in>set emotionKeywords. \<not> includesStr (toLowerCase analysisText) e) \<longrightarrow>
      extractExpression analysisText = ''neutral'')"
  using extractExpression_leading extractExpression_neutral promptVocabulary_subset
  by blast

theorem extractExpression_leading_keyword_or_neutral_witness:
  "''calm'' \<in> set promptVocabulary \<and>
   extractExpression (''calm'' @ ''.'' @ '' Steady breathing indicates relaxation.'') = ''calm'' \<and>
   scanKeywords emotionKeywords (toLowerCase ''The person looks fine'') = None \<and>
   extractExpression ''The person looks fine'' = ''neutral''"
proof -
  have 1: "''calm'' \<in> set promptVocabulary" by (simp add: promptVocabulary_def)
  have 2: "scanKeywords emotionKeywords (toLowerCase ''The person looks fine'') = None"
    by code_simp
  then have 3: "\<forall>e\<in>set emotionKeywords. \<not> includesStr (toLowerCase ''The person looks fine'') e"
    by (simp only: scanKeywords_None)
  show ?thesis
    using 1 2 3
      extractExpression_leading_keyword_or_neutral
        [of "''calm''" "'' Steady breathing indicates relaxation.''" "''The person looks fine''"]
    by blast
qed

text \<open>
  C2 as stated fails: the text \<open>Joyful. Keep the conversation going.\<close> contains none of the
  16 words of the prompts, in any letter case, and its expression is \<open>joyful\<close>, not
  \<open>neutral\<close>.
\<close>

theorem extractExpression_not_neutral_counterexample:
  "scanKeywords promptVocabulary (toLowerCase ''Joyful. Keep the conversation going.'') = None \<and>
   extractExpression ''Joyful. Keep the conversation going.'' = ''joyful'' \<and>
   extractExpression ''Joyful. Keep the conversation going.'' \<noteq> ''neutral''"
  by code_simp

text \<open>
  C3, as amended. For every text the expression is an entry of the extractor's list of 22
  keywords (the 16 words of the prompts and \<open>surprise\<close>, \<open>disappointed\<close>, \<open>scared\<close>,
  \<open>afraid\<close>, \<open>cheerful\<close>, \<open>joyful\<close>). On the lower-cased, trimmed text the strategies apply
  in order: the first token (up to a period, comma or white space) when it is a keyword;
  else the first keyword, in list order, that occurs in the first sentence; else the first
  keyword, in list order, that occurs in the whole text; else \<open>neutral\<close>.
\<close>

theorem extractExpression_strategies:
  "let l = trim (toLowerCase analysisText); r = extractExpression analysisText in
   r \<in> set emotionKeywords \<and>
   (firstWord l \<in> set emotionKeywords \<longrightarrow> r = firstWord l) \<and>
   (firstWord l \<notin> set emotionKeywords \<longrightarrow>
      ((\<exists>e\<in>set emotionKeywords. includesStr (firstSentence l) e) \<longrightarrow>
         isFirstMatch emotionKeywords (firstSentence l) r) \<and>
      ((\<forall>e\<in>set emotionKeywords. \<not> includesStr (firstSentence l) e) \<longrightarrow>
         ((\<exists>e\<in>set emotionKeywords. includesStr l e) \<longrightarrow> isFirstMatch emotionKeywords l r) \<and>
         ((\<forall>e\<in>set emotionKeywords. \<not> includesStr l e) \<longrightarrow> r = ''neutral'')))"
  unfolding Let_def
  using extractExpression_cases [of analysisText]
  by blast

theorem extractExpression_strategies_witness:
  "extractExpression ''I am not sure. Maybe calm or sad'' = ''sad'' \<and>
   ''sad'' \<in> set emotionKeywords \<and>
   isFirstMatch emotionKeywords (trim (toLowerCase ''I am not sure. Maybe calm or sad'')) ''sad''"
proof -
  let ?t = "''I am not sure. Maybe calm or sad''"
  have r: "extractExpression ?t = ''sad''" by code_simp
  have 1: "firstWord (trim (toLowerCase ?t)) \<notin> set emotionKeywords" by code_simp
  have "scanKeywords emotionKeywords (firstSentence (trim (toLowerCase ?t))) = None"
    by code_simp
  then have 2: "\<forall>e\<in>set emotionKeywords. \<not> includesStr (firstSentence (trim (toLowerCase ?t))) e"
    by (simp only: scanKeywords_None)
  have "includesStr (trim (toLowerCase ?t)) ''sad''" by code_simp
  moreover have "''sad'' \<in> set emotionKeywords" by (simp add: emotionKeywords_def)
  ultimately have 3: "\<exists>e\<in>set emotionKeywords. includesStr (trim (toLowerCase ?t)) e"
    by blast
  have "extractExpression ?t \<in> set emotionKeywords \<and>
        isFirstMatch emotionKeywords (trim (toLowerCase ?t)) (extractExpression ?t)"
    using extractExpression_strategies [of ?t] 1 2 3 unfolding Let_def by blast
  then show ?thesis unfolding r by blast
qed

text \<open>
  C3 as stated fails: the expression of \<open>What a surprise\<close> is \<open>surprise\<close>, which is not one
  of the 16 words of the prompts.
\<close>

theorem extractExpression_outside_prompt_vocabulary_counterexample:
  "extractExpression ''What a surprise'' = ''surprise'' \<and>
   ''surprise'' \<notin> set promptVocabulary \<and>
   length promptVocabulary = 16"
  by code_simp

section \<open>Properties of the base64 encoder\<close>

lemma base64Index_Char: "i < 64 \<Longrightarrow> base64Index (base64Char i) = Some i"
  by (auto simp: base64Index_def base64Char_def charCode_def Let_def)

lemma base64Char_not_pad: "i < 64 \<Longrightarrow> base64Char i \<noteq> CHR ''=''"
  using base64Index_Char [of i] by (auto simp: base64Index_def charCode_def)

lemma base64Char_alphabet:
  "map base64Char [0..<64] =
     ''ABCDEFGHIJKLMNOPQRSTUVWXYZabcdefghijklmnopqrstuvwxyz0123456789+/''"
  by code_simp

lemma first_byte_of_sextets:
  fixes a b :: nat
  assumes "b < 256"
  shows "a div 4 * 4 + ((a mod 4) * 16 + b div 16) div 16 = a"
proof -
  have "((a mod 4) * 16 + b div 16) div 16 = a mod 4" using assms by simp
  then show ?thesis by simp
qed

lemma second_byte_of_sextets:
  fixes a b c :: nat
  assumes "b < 256" "c < 256"
  shows "(((a mod 4) * 16 + b div 16) mod 16) * 16 + ((b mod 16) * 4 + c div 64) div 4 = b"
proof -
  have "((a mod 4) * 16 + b div 16) mod 16 = b div 16" using assms by simp
  moreover have "((b mod 16) * 4 + c div 64) div 4 = b mod 16" using assms by simp
  ultimately show ?thesis by simp
qed

lemma third_byte_of_sextets:
  fixes b c :: nat
  assumes "c < 256"
  shows "(((b mod 16) * 4 + c div 64) mod 4) * 64 + c mod 64 = c"
proof -
  have "((b mod 16) * 4 + c div 64) mod 4 = c div 64" using assms by simp
  then show ?thesis by simp
qed

lemma base64DecodeCodes_btoaCodes:
  "\<forall>a\<in>set bs. a < 256 \<Longrightarrow> base64DecodeCodes (btoaCodes bs) = Some bs"
proof (induction bs rule: btoaCodes.induct)
  case 1
  then show ?case by simp
next
  case (2 a)
  then have a: "a < 256" by simp
  have "a div 4 < 64" "(a mod 4) * 16 < 64" using a by simp_all
  then show ?case by (simp add: base64Index_Char)
next
  case (3 a b)
  then have a: "a < 256" and b: "b < 256" by simp_all
  have "a div 4 < 64" "(a mod 4) * 16 + b div 16 < 64" "(b mod 16) * 4 < 64"
    using a b by simp_all
  moreover have "(((a mod 4) * 16 + b div 16) mod 16) * 16 + ((b mod 16) * 4) div 4 = b"
    using second_byte_of_sextets [OF b, of 0 a] by simp
  ultimately show ?case
    using first_byte_of_sextets [OF b, of a]
    by (simp add: base64Index_Char base64Char_not_pad)
next
  case (4 a b c rest)
  then have a: "a < 256" and b: "b < 256" and c: "c < 256" by simp_all
  from 4 have IH: "base64DecodeCodes (btoaCodes rest) = Some rest" by simp
  have "a div 4 < 64" "(a mod 4) * 16 + b div 16 < 64"
    "(b mod 16) * 4 + c div 64 < 64" "c mod 64 < 64"
    using a b c by simp_all
  then show ?case
    using first_byte_of_sextets [OF b, of a] second_byte_of_sextets [OF b c, of a]
      third_byte_of_sextets [OF c, of b] IH
    by (simp add: base64Index_Char base64Char_not_pad)
qed

lemma appendBytes_map: "appendBytes acc bs = acc @ map fromCharCode bs"
  by (induction bs arbitrary: acc) simp_all

lemma charCode_fromCharCode: "charCode (fromCharCode b) = unat b"
proof -
  have "unat b < 256" using unsigned_less [of b] by simp
  then show ?thesis by (simp add: charCode_def fromCharCode_def)
qed

text \<open>
  C10. For every byte array, decoding the base64 text that \<open>arrayBufferToBase64\<close> produces
  gives the byte array back.
\<close>

theorem base64Decode_arrayBufferToBase64:
  "base64Decode (arrayBufferToBase64 buffer) = Some buffer"
proof -
  have "map charCode (map fromCharCode buffer) = map unat buffer"
    by (simp add: charCode_fromCharCode)
  moreover have "\<forall>a\<in>set (map unat buffer). a < 256"
    using unsigned_less [where 'b = 8] by auto
  ultimately have "base64DecodeCodes (arrayBufferToBase64 buffer) = Some (map unat buffer)"
    by (simp add: arrayBufferToBase64_def btoa_def appendBytes_map base64DecodeCodes_btoaCodes)
  then show ?thesis by (simp add: base64Decode_def comp_def)
qed

theorem base64Decode_arrayBufferToBase64_witness:
  "arrayBufferToBase64 [72, 105] = ''SGk='' \<and> base64Decode ''SGk='' = Some [72, 105]"
proof -
  have "arrayBufferToBase64 [72, 105] = ''SGk=''" by code_simp
  then show ?thesis using base64Decode_arrayBufferToBase64 [of "[72, 105]"] by simp
qed

section \<open>Properties of the analysis handler\<close>

lemma analyzeLoop_entries:
  "JNull \<notin> set metrics \<Longrightarrow> \<forall>m\<in>set metrics. loggableMetric m \<Longrightarrow>
   \<exists>new calls'. analyzeLoop eng network contentMode metrics analyses calls =
       (Inr (analyses @ new), calls') \<and>
     length new = length metrics \<and>
     (\<forall>i<length metrics. entryOf (metrics ! i) (new ! i))"
proof (induction metrics arbitrary: analyses calls)
  case Nil
  then show ?case by simp
next
  case (Cons metric rest)
  then have nn: "metric \<noteq> JNull" and rest: "JNull \<notin> set rest"
    and lg: "loggableMetric metric" and lrest: "\<forall>m\<in>set rest. loggableMetric m"
    by auto
  obtain res calls1 where a: "analyzeWithGemini eng network
      (orElse (getProp metric ''Pulse'') (JNum 0)) (orElse (getProp metric ''Breath'') (JNum 0))
      (orElse (getProp metric ''Image'') (JStr '''')) contentMode calls = (res, calls1)"
    by (cases "analyzeWithGemini eng network
      (orElse (getProp metric ''Pulse'') (JNum 0)) (orElse (getProp metric ''Breath'') (JNum 0))
      (orElse (getProp metric ''Image'') (JStr '''')) contentMode calls") auto
  define ts where "ts = stringified (orElse (getProp metric ''Time'') (JNum 0))"
  define hr where "hr = stringified (orElse (getProp metric ''Pulse'') (JNum 0))"
  define br where "br = stringified (orElse (getProp metric ''Breath'') (JNum 0))"
  define entry where "entry = (case res of
      Failure err \<Rightarrow> AnalysisError err ts hr br
    | Success analysis expression \<Rightarrow> AnalysisOk analysis expression ts hr br)"
  have step: "analyzeLoop eng network contentMode (metric # rest) analyses calls =
      analyzeLoop eng network contentMode rest (analyses @ [entry]) calls1"
    using nn a lg
    by (simp add: entry_def ts_def hr_def br_def loggableMetric_def Let_def
          split: analysis_result.splits)
  have e: "entryOf metric entry"
    by (simp add: entry_def entryOf_def ts_def hr_def br_def split: analysis_result.splits)
  from Cons.IH [OF rest lrest, of "analyses @ [entry]" calls1]
  obtain new calls' where IH:
    "analyzeLoop eng network contentMode rest (analyses @ [entry]) calls1 = (Inr ((analyses @ [entry]) @ new), calls')"
    "length new = length rest" "\<forall>i<length rest. entryOf (rest ! i) (new ! i)"
    by blast
  have "\<forall>i<length (metric # rest). entryOf ((metric # rest) ! i) ((entry # new) ! i)"
    using e IH(3) by (auto simp: nth_Cons split: nat.splits)
  then show ?case
    using step IH(1,2) by (intro exI [of _ "entry # new"] exI [of _ calls']) simp
qed

text \<open>
  C1, as amended. For every input array that is not empty, has no \<open>null\<close> element, and in
  which the heart rate, breath rate and timestamp of every metric have a string form (none
  is an object with a member named \<open>toString\<close>, or an array that holds one), the handler
  answers 200 with a result array of the length of the input, in the order of the input:
  the entry at index \<open>i\<close> carries the heart rate and breath rate of the metric at index
  \<open>i\<close>, and its timestamp is \<open>Time || 0\<close> of that metric as the JSON of the response
  carries it; so it is the \<open>Time\<close> field when that is a finite number, and 0 when the field
  is absent. Whether the analysis of a metric fails or succeeds, its entry is there.
\<close>

theorem handleAnalyze_one_entry_per_metric:
  assumes "metrics \<noteq> []" "JNull \<notin> set metrics" "\<forall>m\<in>set metrics. loggableMetric m"
  shows "\<exists>analyses calls'.
      handleAnalyze eng network (Inr (JArr metrics)) contentModeParam calls =
        (jsonResponse 200 (AnalyzeBody analyses (length metrics)), calls') \<and>
      length analyses = length metrics \<and>
      (\<forall>i<length metrics.
         entryTimestamp (analyses ! i) =
           stringified (orElse (getProp (metrics ! i) ''Time'') (JNum 0)) \<and>
         entryHeartRate (analyses ! i) =
           stringified (orElse (getProp (metrics ! i) ''Pulse'') (JNum 0)) \<and>
         entryBreathRate (analyses ! i) =
           stringified (orElse (getProp (metrics ! i) ''Breath'') (JNum 0)) \<and>
         (\<forall>t. getProp (metrics ! i) ''Time'' = Some (JNum t) \<longrightarrow>
              entryTimestamp (analyses ! i) = JNum t) \<and>
         (getProp (metrics ! i) ''Time'' = None \<longrightarrow> entryTimestamp (analyses ! i) = JNum 0))"
proof -
  define contentMode where "contentMode = (case contentModeParam of
                                 None \<Rightarrow> ''suggestions''
                               | Some m \<Rightarrow> if m = [] then ''suggestions'' else m)"
  from analyzeLoop_entries [OF assms(2,3), of eng network contentMode "[]" calls]
  obtain new calls' where l:
    "analyzeLoop eng network contentMode metrics [] calls = (Inr new, calls')"
    "length new = length metrics" "\<forall>i<length metrics. entryOf (metrics ! i) (new ! i)"
    by auto
  have h: "handleAnalyze eng network (Inr (JArr metrics)) contentModeParam calls =
        (jsonResponse 200 (AnalyzeBody new (length metrics)), calls')"
    using assms(1) l(1) by (simp add: handleAnalyze_def contentMode_def [symmetric])
  have num: "stringified (orElse (Some (JNum t)) (JNum 0)) = JNum t" for t
    by (simp add: orElse_def)
  have none: "stringified (orElse None (JNum 0)) = JNum 0"
    by (simp add: orElse_def)
  have "\<forall>i<length metrics.
         entryTimestamp (new ! i) =
           stringified (orElse (getProp (metrics ! i) ''Time'') (JNum 0)) \<and>
         entryHeartRate (new ! i) =
           stringified (orElse (getProp (metrics ! i) ''Pulse'') (JNum 0)) \<and>
         entryBreathRate (new ! i) =
           stringified (orElse (getProp (metrics ! i) ''Breath'') (JNum 0)) \<and>
         (\<forall>t. getProp (metrics ! i) ''Time'' = Some (JNum t) \<longrightarrow>
              entryTimestamp (new ! i) = JNum t) \<and>
         (getProp (metrics ! i) ''Time'' = None \<longrightarrow> entryTimestamp (new ! i) = JNum 0)"
    using l(3) num none unfolding entryOf_def by (metis (no_types, lifting))
  then show ?thesis using h l(2) by blast
qed

theorem handleAnalyze_one_entry_per_metric_witness:
  "\<exists>analyses calls'.
     handleAnalyze sampleEngine sampleNet
       (Inr (JArr [JObj [(''Pulse'', JNum 72), (''Time'', JNum (3 / 2))],
                   JObj [(''Pulse'', JNum 80)]])) None [] =
       (jsonResponse 200 (AnalyzeBody analyses 2), calls') \<and>
     length analyses = 2 \<and>
     entryTimestamp (analyses ! 0) = JNum (3 / 2) \<and>
     entryTimestamp (analyses ! 1) = JNum 0 \<and>
     entryHeartRate (analyses ! 1) = JNum 80"
proof -
  let ?ms = "[JObj [(''Pulse'', JNum 72), (''Time'', JNum (3 / 2))], JObj [(''Pulse'', JNum 80)]]"
  have h: "?ms \<noteq> []" "JNull \<notin> set ?ms" "\<forall>m\<in>set ?ms. loggableMetric m"
    by (simp_all add: loggableMetric_def orElse_def)
  from handleAnalyze_one_entry_per_metric [OF h, of sampleEngine sampleNet None "[]"]
  obtain analyses calls' where a:
    "handleAnalyze sampleEngine sampleNet (Inr (JArr ?ms)) None [] =
       (jsonResponse 200 (AnalyzeBody analyses (length ?ms)), calls')"
    "length analyses = length ?ms"
    "\<forall>i<length ?ms.
         entryTimestamp (analyses ! i) =
           stringified (orElse (getProp (?ms ! i) ''Time'') (JNum 0)) \<and>
         entryHeartRate (analyses ! i) =
           stringified (orElse (getProp (?ms ! i) ''Pulse'') (JNum 0)) \<and>
         entryBreathRate (analyses ! i) =
           stringified (orElse (getProp (?ms ! i) ''Breath'') (JNum 0)) \<and>
         (\<forall>t. getProp (?ms ! i) ''Time'' = Some (JNum t) \<longrightarrow>
              entryTimestamp (analyses ! i) = JNum t) \<and>
         (getProp (?ms ! i) ''Time'' = None \<longrightarrow> entryTimestamp (analyses ! i) = JNum 0)"
    by blast
  have "entryTimestamp (analyses ! 0) = JNum (3 / 2)"
    using a(3) [rule_format, of 0] by (simp add: orElse_def)
  moreover have "entryTimestamp (analyses ! 1) = JNum 0" "entryHeartRate (analyses ! 1) = JNum 80"
    using a(3) [rule_format, of 1] by (simp_all add: orElse_def)
  ultimately show ?thesis
    using a(1,2) by (intro exI [of _ analyses] exI [of _ calls']) (simp add: numeral_2_eq_2)
qed

text \<open>
  C1 as stated fails: for the input array of a valid metric followed by \<open>null\<close>, reading
  \<open>metric.Pulse\<close> of the second element throws after the first metric has been analysed,
  and the handler answers 500 with an error body and no result array.
\<close>

theorem handleAnalyze_null_metric_counterexample:
  "handleAnalyze sampleEngine sampleNet
     (Inr (JArr [JObj [(''Pulse'', JNum 72), (''Time'', JNum 1)], JNull])) None [] =
   (jsonResponse 500 (ErrorBody ''Cannot read properties of null (reading Pulse)''),
    [GeminiGenerate (SuggestionsPrompt (JNum 72) (JNum 0)) None (7 / 10) 100])"
  by code_simp

text \<open>
  C8, as amended. For every analysis request whose body is not an array, or is an empty
  array, the handler answers 400 with the invalid format error and makes no upstream call.
\<close>

theorem handleAnalyze_rejects_non_array_and_empty:
  "(\<forall>ms. body \<noteq> JArr ms) \<or> body = JArr [] \<Longrightarrow>
   handleAnalyze eng network (Inr body) contentModeParam calls =
     (jsonResponse 400 (ErrorBody ''Invalid format: expected array of metrics''), calls)"
  by (cases body) (auto simp: handleAnalyze_def)

theorem handleAnalyze_rejects_non_array_and_empty_witness:
  "handleAnalyze sampleEngine sampleNet (Inr (JObj [(''Pulse'', JNum 72)])) None [] =
     (jsonResponse 400 (ErrorBody ''Invalid format: expected array of metrics''), []) \<and>
   handleAnalyze sampleEngine sampleNet (Inr (JArr [])) None [] =
     (jsonResponse 400 (ErrorBody ''Invalid format: expected array of metrics''), [])"
  using handleAnalyze_rejects_non_array_and_empty
          [of "JObj [(''Pulse'', JNum 72)]" sampleEngine sampleNet None "[]"]
        handleAnalyze_rejects_non_array_and_empty
          [of "JArr []" sampleEngine sampleNet None "[]"]
  by simp

text \<open>
  C8 as stated fails: the body \<open>[1]\<close> is a non-empty array whose element is not an object;
  the handler does not answer 400, it calls the generation service for the element and
  answers 200 with one result.
\<close>

theorem handleAnalyze_array_of_non_objects_counterexample:
  "handleAnalyze sampleEngine sampleNet (Inr (JArr [JNum 1])) None [] =
     (jsonResponse 200
        (AnalyzeBody [AnalysisOk ''Keep a steady pace.'' ''calm'' (JNum 0) (JNum 0) (JNum 0)] 1),
      [GeminiGenerate (SuggestionsPrompt (JNum 0) (JNum 0)) None (7 / 10) 100])"
  by code_simp

section \<open>Properties of the speech handler\<close>

lemma speechRequest_truthy: "speechRequest item \<noteq> None \<longleftrightarrow> truthyVal (getProp item ''text'')"
  by (simp add: speechRequest_def truthyVal_def split: option.splits)

lemma speakItem_none:
  "speechRequest item = None \<Longrightarrow>
   speakItem network item calls =
     (Inr (SpeechError ''Text is required'' None
             (stringified (orElse (getProp item ''timestamp'') (JNum 0)))), calls)"
  by (auto simp: speechRequest_def speakItem_def Let_def split: option.splits if_splits)

lemma speakItem_some:
  "validSpeechItem item \<Longrightarrow> speechRequest item = Some req \<Longrightarrow>
   speakItem network item calls =
     (Inr (case network (length calls) req of
             Inl e \<Rightarrow> SpeechError (message e) None
                        (stringified (orElse (getProp item ''timestamp'') (JNum 0)))
           | Inr r \<Rightarrow>
               if \<not> ok r
               then (case bodyText r of
                       Inl e \<Rightarrow> SpeechError (message e) None
                                  (stringified (orElse (getProp item ''timestamp'') (JNum 0)))
                     | Inr errorText \<Rightarrow>
                         SpeechError (''ElevenLabs API error: '' @ statusText r) (Some errorText)
                           (stringified (orElse (getProp item ''timestamp'') (JNum 0))))
               else (case bodyBytes r of
                       Inl e \<Rightarrow> SpeechError (message e) None
                                  (stringified (orElse (getProp item ''timestamp'') (JNum 0)))
                     | Inr audioBuffer \<Rightarrow>
                         SpeechAudio (arrayBufferToBase64 audioBuffer)
                           (stringified (orElse (getProp item ''timestamp'') (JNum 0)))
                           ''audio/mpeg'')),
      calls @ [req])"
  by (auto simp: validSpeechItem_def speechRequest_def speakItem_def Let_def fetch_def
      split: option.splits if_splits sum.splits)

lemma speakItem_entry:
  assumes "speechRequest item = None \<or> validSpeechItem item"
  shows "\<exists>entry. speakItem network item calls =
           (Inr entry, calls @ List.map_filter speechRequest [item])"
proof (cases "speechRequest item")
  case None
  then show ?thesis by (simp add: speakItem_none List.map_filter_simps)
next
  case (Some req)
  then have "validSpeechItem item" using assms by simp
  then show ?thesis using Some by (simp add: speakItem_some List.map_filter_simps)
qed

lemma map_filter_append: "List.map_filter f (xs @ ys) = List.map_filter f xs @ List.map_filter f ys"
  by (simp add: List.map_filter_def)

lemma batchLoop_entries:
  "JNull \<notin> set items \<Longrightarrow>
   \<forall>item\<in>set items. speechRequest item = None \<or> validSpeechItem item \<Longrightarrow>
   \<exists>new. batchLoop network items acc calls =
       (Inr (acc @ new), calls @ List.map_filter speechRequest items) \<and>
     length new = length items \<and>
     (\<forall>i<length items.
        fst (speakItem network (items ! i)
               (calls @ List.map_filter speechRequest (take i items))) = Inr (new ! i))"
proof (induction items arbitrary: acc calls)
  case Nil
  then show ?case by (simp add: List.map_filter_simps)
next
  case (Cons item rest)
  then have nn: "item \<noteq> JNull" and rest: "JNull \<notin> set rest"
    and it: "speechRequest item = None \<or> validSpeechItem item"
    and rv: "\<forall>item\<in>set rest. speechRequest item = None \<or> validSpeechItem item"
    by auto
  define calls1 where "calls1 = calls @ List.map_filter speechRequest [item]"
  obtain entry where sp: "speakItem network item calls = (Inr entry, calls1)"
    using speakItem_entry [OF it, of network calls] by (auto simp: calls1_def)
  have step: "batchLoop network (item # rest) acc calls =
      batchLoop network rest (acc @ [entry]) calls1"
    using nn sp by simp
  from Cons.IH [OF rest rv, of "acc @ [entry]" calls1]
  obtain new where IH:
    "batchLoop network rest (acc @ [entry]) calls1 =
       (Inr ((acc @ [entry]) @ new), calls1 @ List.map_filter speechRequest rest)"
    "length new = length rest"
    "\<forall>i<length rest. fst (speakItem network (rest ! i)
                        (calls1 @ List.map_filter speechRequest (take i rest))) = Inr (new ! i)"
    by blast
  have c: "calls1 @ List.map_filter speechRequest xs = calls @ List.map_filter speechRequest (item # xs)" for xs
    using map_filter_append [of speechRequest "[item]" xs] by (simp add: calls1_def)
  have "\<forall>i<length (item # rest).
      fst (speakItem network ((item # rest) ! i)
             (calls @ List.map_filter speechRequest (take i (item # rest)))) = Inr ((entry # new) ! i)"
  proof (intro allI impI)
    fix i assume "i < length (item # rest)"
    then show "fst (speakItem network ((item # rest) ! i)
             (calls @ List.map_filter speechRequest (take i (item # rest)))) = Inr ((entry # new) ! i)"
      using IH(3) c sp by (cases i) (simp_all add: List.map_filter_simps)
  qed
  then show ?case
    using step IH(1,2) c [of rest] by (intro exI [of _ "entry # new"]) simp
qed

lemma requests_before:
  assumes "k < length texts" "speechRequest (texts ! k) = None"
    and "\<forall>i<length texts. i \<noteq> k \<longrightarrow> speechRequest (texts ! i) \<noteq> None"
  shows "j \<le> length texts \<Longrightarrow>
         length (List.map_filter speechRequest (take j texts)) = (if j \<le> k then j else j - 1)"
proof (induction j)
  case 0
  then show ?case by (simp add: List.map_filter_simps)
next
  case (Suc j)
  then have j: "j < length texts" by simp
  have t: "take (Suc j) texts = take j texts @ [texts ! j]"
    using j by (simp add: take_Suc_conv_app_nth)
  show ?case
  proof (cases "j = k")
    case True
    have "List.map_filter speechRequest (take (Suc j) texts) =
          List.map_filter speechRequest (take j texts)"
      unfolding t map_filter_append using assms(2) True by (simp add: List.map_filter_simps)
    then show ?thesis
      using Suc j True by simp
  next
    case False
    then obtain req where "speechRequest (texts ! j) = Some req"
      using assms(3) j by auto
    then have "List.map_filter speechRequest (take (Suc j) texts) =
          List.map_filter speechRequest (take j texts) @ [req]"
      unfolding t map_filter_append by (simp add: List.map_filter_simps)
    then show ?thesis
      using Suc j False by auto
  qed
qed

lemma encoded_audio_decodes: "base64Decode (arrayBufferToBase64 buffer) = Some buffer"
proof -
  have "map charCode (map fromCharCode buffer) = map unat buffer"
    by (simp add: charCode_fromCharCode)
  moreover have "\<forall>a\<in>set (map unat buffer). a < 256"
    using unsigned_less [where 'b = 8] by auto
  ultimately have "base64DecodeCodes (arrayBufferToBase64 buffer) = Some (map unat buffer)"
    by (simp add: arrayBufferToBase64_def btoa_def appendBytes_map base64DecodeCodes_btoaCodes)
  then show ?thesis by (simp add: base64Decode_def comp_def)
qed

text \<open>
  C4, as amended. In a batch of \<open>N\<close> items none of which is \<open>null\<close>, where the item at
  index \<open>k\<close> has no text (\<open>text\<close> absent or falsy), every other item is valid (it has a
  text, and its voice and its timestamp have a string form), and the speech service
  answers the call for each of them with success and a body that can be read: the handler
  answers 200 with \<open>N\<close> results and \<open>totalProcessed = N\<close>; the result at \<open>k\<close> is the error
  entry \<open>Text is required\<close>, for which no request is sent: the calls made are the requests
  of the other \<open>N - 1\<close> items, in order; the result at every other index is an audio entry
  with the timestamp of that item, whose audio is the base64 text of the bytes that the
  service returned for that item: decoding it gives these bytes.
\<close>

theorem handleBatchTTS_item_without_text:
  assumes k: "k < length texts" and nonnull: "JNull \<notin> set texts"
    and missing: "\<not> truthyVal (getProp (texts ! k) ''text'')"
    and valid: "\<forall>i<length texts. i \<noteq> k \<longrightarrow> validSpeechItem (texts ! i)"
    and succeed: "\<forall>i<length texts. i \<noteq> k \<longrightarrow>
           (\<forall>req. speechRequest (texts ! i) = Some req \<longrightarrow>
              (\<exists>r bytes. network (length calls + (if i < k then i else i - 1)) req = Inr r \<and>
                 ok r \<and> bodyBytes r = Inr bytes))"
  shows "\<exists>results.
      handleBatchTTS network texts calls =
        (Inr (jsonResponse 200 (BatchBody results (length texts))),
         calls @ List.map_filter speechRequest texts) \<and>
      length results = length texts \<and>
      length (List.map_filter speechRequest texts) = length texts - 1 \<and>
      speechRequest (texts ! k) = None \<and>
      results ! k = SpeechError ''Text is required'' None
                      (stringified (orElse (getProp (texts ! k) ''timestamp'') (JNum 0))) \<and>
      (\<forall>i<length texts. i \<noteq> k \<longrightarrow>
         (\<exists>req r bytes. speechRequest (texts ! i) = Some req \<and>
            network (length calls + (if i < k then i else i - 1)) req = Inr r \<and>
            bodyBytes r = Inr bytes \<and>
            results ! i = SpeechAudio (arrayBufferToBase64 bytes)
                            (stringified (orElse (getProp (texts ! i) ''timestamp'') (JNum 0)))
                            ''audio/mpeg'' \<and>
            base64Decode (arrayBufferToBase64 bytes) = Some bytes))"
proof -
  have none: "speechRequest (texts ! k) = None"
    using missing speechRequest_truthy [of "texts ! k"] by blast
  have some: "\<forall>i<length texts. i \<noteq> k \<longrightarrow> speechRequest (texts ! i) \<noteq> None"
    using valid speechRequest_truthy unfolding validSpeechItem_def by blast
  have items: "\<forall>item\<in>set texts. speechRequest item = None \<or> validSpeechItem item"
  proof
    fix item assume "item \<in> set texts"
    then obtain i where "i < length texts" "item = texts ! i"
      by (auto simp: in_set_conv_nth)
    then show "speechRequest item = None \<or> validSpeechItem item"
      using none valid by (cases "i = k") auto
  qed
  note count = requests_before [OF k none some]
  from batchLoop_entries [OF nonnull items, of network "[]" calls]
  obtain results where l:
    "batchLoop network texts [] calls = (Inr results, calls @ List.map_filter speechRequest texts)"
    "length results = length texts"
    "\<forall>i<length texts.
        fst (speakItem network (texts ! i) (calls @ List.map_filter speechRequest (take i texts))) =
        Inr (results ! i)"
    by auto
  have ne: "texts \<noteq> []" using k by auto
  have h: "handleBatchTTS network texts calls =
        (Inr (jsonResponse 200 (BatchBody results (length texts))),
         calls @ List.map_filter speechRequest texts)"
    using ne l(1) by (simp add: handleBatchTTS_def)
  have n: "length (List.map_filter speechRequest texts) = length texts - 1"
    using count [of "length texts"] k by simp
  have rk: "results ! k = SpeechError ''Text is required'' None
                      (stringified (orElse (getProp (texts ! k) ''timestamp'') (JNum 0)))"
    using l(3) [rule_format, OF k] by (simp add: speakItem_none [OF none])
  have ri: "\<exists>req r bytes. speechRequest (texts ! i) = Some req \<and>
            network (length calls + (if i < k then i else i - 1)) req = Inr r \<and>
            bodyBytes r = Inr bytes \<and>
            results ! i = SpeechAudio (arrayBufferToBase64 bytes)
                            (stringified (orElse (getProp (texts ! i) ''timestamp'') (JNum 0)))
                            ''audio/mpeg'' \<and>
            base64Decode (arrayBufferToBase64 bytes) = Some bytes"
    if i: "i < length texts" "i \<noteq> k" for i
  proof -
    obtain req where req: "speechRequest (texts ! i) = Some req"
      using some i by auto
    have v: "validSpeechItem (texts ! i)" using valid i by blast
    obtain r bytes where r: "network (length calls + (if i < k then i else i - 1)) req = Inr r"
      "ok r" "bodyBytes r = Inr bytes"
      using succeed i req by blast
    have len: "length (calls @ List.map_filter speechRequest (take i texts)) =
               length calls + (if i < k then i else i - 1)"
      using count [of i] i by auto
    have "Inr (results ! i) = fst (speakItem network (texts ! i)
              (calls @ List.map_filter speechRequest (take i texts)))"
      using l(3) i(1) by simp
    also have "\<dots> = Inr (SpeechAudio (arrayBufferToBase64 bytes)
                            (stringified (orElse (getProp (texts ! i) ''timestamp'') (JNum 0)))
                            ''audio/mpeg'')"
      unfolding speakItem_some [OF v req] len using r by simp
    finally have "results ! i = SpeechAudio (arrayBufferToBase64 bytes)
                            (stringified (orElse (getProp (texts ! i) ''timestamp'') (JNum 0)))
                            ''audio/mpeg''"
      by simp
    then show ?thesis using req r(1,3) encoded_audio_decodes by blast
  qed
  show ?thesis
    using h l(2) n none rk ri by blast
qed

theorem handleBatchTTS_item_without_text_witness:
  "handleBatchTTS sampleNet
     [JObj [(''text'', JStr ''hi'')], JObj [(''timestamp'', JNum 2)],
      JObj [(''text'', JStr ''yo''), (''timestamp'', JNum 3)]] [] =
     (Inr (jsonResponse 200
        (BatchBody [SpeechAudio ''SUQz'' (JNum 0) ''audio/mpeg'',
                    SpeechError ''Text is required'' None (JNum 2),
                    SpeechAudio ''SUQz'' (JNum 3) ''audio/mpeg''] 3)),
      [ElevenLabsSpeech defaultVoice (JStr ''hi''), ElevenLabsSpeech defaultVoice (JStr ''yo'')]) \<and>
   base64Decode ''SUQz'' = Some [73, 68, 51]"
proof -
  let ?ts = "[JObj [(''text'', JStr ''hi'')], JObj [(''timestamp'', JNum 2)],
              JObj [(''text'', JStr ''yo''), (''timestamp'', JNum 3)]]"
  let ?r = "\<lparr>ok = True, status = 200, statusText = ''OK'', bodyText = Inr '''',
             bodyJson = Inl (SyntaxError ''Unexpected token''),
             bodyBytes = Inr [73, 68, 51 :: 8 word]\<rparr>"
  have k: "1 < length ?ts" by simp
  have nonnull: "JNull \<notin> set ?ts" by simp
  have missing: "\<not> truthyVal (getProp (?ts ! 1) ''text'')" by (simp add: truthyVal_def)
  have valid: "\<forall>i<length ?ts. i \<noteq> 1 \<longrightarrow> validSpeechItem (?ts ! i)"
    by (simp add: validSpeechItem_def truthyVal_def orElse_def defaultVoice_def nth_Cons
          less_Suc_eq_0_disj split: nat.splits)
  have net: "sampleNet n (ElevenLabsSpeech v t) = Inr ?r" for n v t
    by (simp add: sampleNet_def)
  have succeed: "\<forall>i<length ?ts. i \<noteq> 1 \<longrightarrow>
           (\<forall>req. speechRequest (?ts ! i) = Some req \<longrightarrow>
              (\<exists>r bytes. sampleNet (length ([]::request list) + (if i < 1 then i else i - 1)) req = Inr r \<and>
                 ok r \<and> bodyBytes r = Inr bytes))"
    by (auto simp: speechRequest_def net split: option.splits if_splits)
  have reqs: "List.map_filter speechRequest ?ts =
      [ElevenLabsSpeech defaultVoice (JStr ''hi''), ElevenLabsSpeech defaultVoice (JStr ''yo'')]"
    by (simp add: List.map_filter_simps speechRequest_def orElse_def)
  have enc: "arrayBufferToBase64 [73, 68, 51] = ''SUQz''"
    by code_simp
  from handleBatchTTS_item_without_text [OF k nonnull missing valid succeed]
  obtain results where res:
    "handleBatchTTS sampleNet ?ts [] =
        (Inr (jsonResponse 200 (BatchBody results (length ?ts))),
         [] @ List.map_filter speechRequest ?ts)"
    "length results = length ?ts"
    "results ! 1 = SpeechError ''Text is required'' None
                      (stringified (orElse (getProp (?ts ! 1) ''timestamp'') (JNum 0)))"
    "\<forall>i<length ?ts. i \<noteq> 1 \<longrightarrow>
         (\<exists>req r bytes. speechRequest (?ts ! i) = Some req \<and>
            sampleNet (length ([]::request list) + (if i < 1 then i else i - 1)) req = Inr r \<and>
            bodyBytes r = Inr bytes \<and>
            results ! i = SpeechAudio (arrayBufferToBase64 bytes)
                            (stringified (orElse (getProp (?ts ! i) ''timestamp'') (JNum 0)))
                            ''audio/mpeg'' \<and>
            base64Decode (arrayBufferToBase64 bytes) = Some bytes)"
    by blast
  have r0: "results ! 0 = SpeechAudio ''SUQz'' (JNum 0) ''audio/mpeg'' \<and>
            base64Decode ''SUQz'' = Some [73, 68, 51]"
    using res(4) [rule_format, of 0] enc
    by (auto simp: speechRequest_def net orElse_def)
  have r2: "results ! 2 = SpeechAudio ''SUQz'' (JNum 3) ''audio/mpeg''"
    using res(4) [rule_format, of 2] enc
    by (auto simp: speechRequest_def net orElse_def)
  have r1: "results ! 1 = SpeechError ''Text is required'' None (JNum 2)"
    using res(3) by (simp add: orElse_def)
  have "results = [results ! 0, results ! 1, results ! 2]"
    using res(2) by (intro nth_equalityI) (auto simp: nth_Cons less_Suc_eq_0_disj numeral_2_eq_2 numeral_3_eq_3 split: nat.splits)
  then have "results = [SpeechAudio ''SUQz'' (JNum 0) ''audio/mpeg'',
                    SpeechError ''Text is required'' None (JNum 2),
                    SpeechAudio ''SUQz'' (JNum 3) ''audio/mpeg'']"
    using r0 r1 r2 by simp
  then show ?thesis
    using res(1) r0 unfolding reqs by (simp add: numeral_3_eq_3)
qed

text \<open>
  C4 as stated fails. In the batch \<open>[{text: hi}, null]\<close> the item at index 1 has no text
  field and the other item is valid and its call succeeds; reading \<open>item.text\<close> of \<open>null\<close>
  throws outside the \<open>try\<close> of the loop, and the route answers 500 with no result array,
  after the call for the first item. In the batch \<open>[{text: hi, timestamp: {toString: 1}},
  {}]\<close> the item at index 1 has no text and the other item has one; the template literal of
  \<open>console.log\<close> cannot convert the timestamp of the first item to a string, before the
  \<open>try\<close>, and the route answers 500 with no result array and no call.
\<close>

theorem handleBatchTTS_item_throws_counterexample:
  "routeTts sampleNet (Inr (JArr [JObj [(''text'', JStr ''hi'')], JNull])) [] =
     (jsonResponse 500 (ErrorBody ''Cannot read properties of null (reading text)''),
      [ElevenLabsSpeech defaultVoice (JStr ''hi'')]) \<and>
   routeTts sampleNet
     (Inr (JArr [JObj [(''text'', JStr ''hi''), (''timestamp'', JObj [(''toString'', JNum 1)])],
                 JObj []])) [] =
     (jsonResponse 500 (ErrorBody ''Cannot convert object to primitive value''), [])"
  by code_simp

lemma singleTTS_missing_text:
  assumes "\<forall>ts. body \<noteq> JArr ts" "body \<noteq> JNull" "\<not> truthyVal (getProp body ''text'')"
  shows "routeTts network (Inr body) calls =
           (jsonResponse 400 (ErrorBody ''Text is required''), calls)"
  using assms
  by (cases body)
     (auto simp: routeTts_def route_def handleTTS_def handleSingleTTS_def truthyVal_def
        split: option.splits)

lemma singleTTS_upstream_failure:
  assumes "\<forall>ts. body \<noteq> JArr ts" "body \<noteq> JNull"
    and "getProp body ''text'' = Some textValue" "truthy textValue"
    and "\<not> toStringThrows (orElse (getProp body ''voice'') defaultVoice)"
    and "network (length calls)
           (ElevenLabsSpeech (orElse (getProp body ''voice'') defaultVoice) textValue) = Inr r"
    and "\<not> ok r" "bodyText r = Inr errorText"
  shows "routeTts network (Inr body) calls =
           (jsonResponse 500
              (ErrorBody (''ElevenLabs API error: '' @ statusText r @ '' - '' @ errorText)),
            calls @ [ElevenLabsSpeech (orElse (getProp body ''voice'') defaultVoice) textValue])"
  using assms
  by (cases body)
     (simp_all add: routeTts_def route_def handleTTS_def handleSingleTTS_def fetch_def)

text \<open>
  C7, as amended. A single speech request is a body that is not an array. When the body
  is not \<open>null\<close>: if its \<open>text\<close> is missing (absent or falsy), the route answers 400 with
  \<open>Text is required\<close> and no call is made; if the text is there, the voice has a string
  form, and the speech service answers the call with a status that is not a success and a
  body that can be read, the handler throws and the route answers 500 with an error
  message that contains the status text of the service.
\<close>

theorem routeTts_single_request:
  assumes "\<forall>ts. body \<noteq> JArr ts" "body \<noteq> JNull"
  shows
  "(\<not> truthyVal (getProp body ''text'') \<longrightarrow>
      routeTts network (Inr body) calls =
        (jsonResponse 400 (ErrorBody ''Text is required''), calls)) \<and>
   (\<forall>textValue r errorText.
      getProp body ''text'' = Some textValue \<and> truthy textValue \<and>
      \<not> toStringThrows (orElse (getProp body ''voice'') defaultVoice) \<and>
      network (length calls)
        (ElevenLabsSpeech (orElse (getProp body ''voice'') defaultVoice) textValue) = Inr r \<and>
      \<not> ok r \<and> bodyText r = Inr errorText \<longrightarrow>
      (\<exists>msg. routeTts network (Inr body) calls =
         (jsonResponse 500 (ErrorBody msg),
          calls @ [ElevenLabsSpeech (orElse (getProp body ''voice'') defaultVoice) textValue]) \<and>
         includesStr msg (statusText r)))"
proof (intro conjI impI allI)
  assume "\<not> truthyVal (getProp body ''text'')"
  then show "routeTts network (Inr body) calls =
        (jsonResponse 400 (ErrorBody ''Text is required''), calls)"
    by (rule singleTTS_missing_text [OF assms])
next
  fix textValue r errorText
  assume a: "getProp body ''text'' = Some textValue \<and> truthy textValue \<and>
      \<not> toStringThrows (orElse (getProp body ''voice'') defaultVoice) \<and>
      network (length calls)
        (ElevenLabsSpeech (orElse (getProp body ''voice'') defaultVoice) textValue) = Inr r \<and>
      \<not> ok r \<and> bodyText r = Inr errorText"
  let ?msg = "''ElevenLabs API error: '' @ statusText r @ '' - '' @ errorText"
  have "sublist (statusText r) ?msg" by (rule sublist_appendI)
  then have "includesStr ?msg (statusText r)" by (simp only: includesStr_iff_sublist)
  moreover have "routeTts network (Inr body) calls =
         (jsonResponse 500 (ErrorBody ?msg),
          calls @ [ElevenLabsSpeech (orElse (getProp body ''voice'') defaultVoice) textValue])"
    using a singleTTS_upstream_failure [OF assms] by blast
  ultimately show "\<exists>msg. routeTts network (Inr body) calls =
         (jsonResponse 500 (ErrorBody msg),
          calls @ [ElevenLabsSpeech (orElse (getProp body ''voice'') defaultVoice) textValue]) \<and>
         includesStr msg (statusText r)"
    by blast
qed

theorem routeTts_single_request_witness:
  "routeTts refusingNet (Inr (JObj [(''voice'', JStr ''abc'')])) [] =
     (jsonResponse 400 (ErrorBody ''Text is required''), []) \<and>
   (\<exists>msg. routeTts refusingNet (Inr (JObj [(''text'', JStr ''hi'')])) [] =
      (jsonResponse 500 (ErrorBody msg), [ElevenLabsSpeech defaultVoice (JStr ''hi'')]) \<and>
      includesStr msg ''Unauthorized'')"
proof -
  let ?r = "\<lparr>ok = False, status = 401, statusText = ''Unauthorized'',
            bodyText = Inr ''invalid api key'', bodyJson = Inl (SyntaxError ''Unexpected token''),
            bodyBytes = Inr []\<rparr>"
  let ?b1 = "JObj [(''voice'', JStr ''abc'')]"
  let ?b2 = "JObj [(''text'', JStr ''hi'')]"
  have h1: "\<forall>ts. ?b1 \<noteq> JArr ts" "?b1 \<noteq> JNull" by simp_all
  have h2: "\<forall>ts. ?b2 \<noteq> JArr ts" "?b2 \<noteq> JNull" by simp_all
  have 1: "\<not> truthyVal (getProp ?b1 ''text'')"
    by (simp add: truthyVal_def)
  have 3: "orElse (getProp ?b2 ''voice'') defaultVoice = defaultVoice"
    by (simp add: orElse_def)
  have 2: "getProp ?b2 ''text'' = Some (JStr ''hi'') \<and> truthy (JStr ''hi'') \<and>
      \<not> toStringThrows (orElse (getProp ?b2 ''voice'') defaultVoice) \<and>
      refusingNet (length ([]::request list))
        (ElevenLabsSpeech (orElse (getProp ?b2 ''voice'') defaultVoice) (JStr ''hi'')) = Inr ?r \<and>
      \<not> ok ?r \<and> bodyText ?r = Inr ''invalid api key''"
    by (simp add: refusingNet_def orElse_def defaultVoice_def)
  have a: "routeTts refusingNet (Inr ?b1) [] =
     (jsonResponse 400 (ErrorBody ''Text is required''), [])"
    using routeTts_single_request [OF h1, of refusingNet "[]"] 1
    by blast
  have "\<exists>msg. routeTts refusingNet (Inr ?b2) [] =
         (jsonResponse 500 (ErrorBody msg),
          [] @ [ElevenLabsSpeech (orElse (getProp ?b2 ''voice'') defaultVoice) (JStr ''hi'')]) \<and>
         includesStr msg (statusText ?r)"
    using routeTts_single_request [OF h2, of refusingNet "[]"] 2
    by blast
  then have "\<exists>msg. routeTts refusingNet (Inr ?b2) [] =
      (jsonResponse 500 (ErrorBody msg), [ElevenLabsSpeech defaultVoice (JStr ''hi'')]) \<and>
      includesStr msg ''Unauthorized''"
    unfolding 3 by simp
  with a show ?thesis by blast
qed

text \<open>
  C7 as stated fails. The body \<open>null\<close> is not an array, so it is handled as a single
  request, and it has no text field; destructuring \<open>null\<close> throws before the test of the
  text, and the route answers 500, not 400. And when the speech service answers with the
  status \<open>Bad Gateway\<close> and reading the body of its response fails, the error of
  \<open>await elevenLabsResponse.text()\<close> leaves the handler before the message with the
  status text is built: the route answers 500 with a message that does not contain the
  status text.
\<close>

theorem routeTts_null_body_counterexample:
  "routeTts refusingNet (Inr JNull) [] =
     (jsonResponse 500 (ErrorBody ''Cannot destructure property text of null''), []) \<and>
   routeTts unreadableNet (Inr (JObj [(''text'', JStr ''hi'')])) [] =
     (jsonResponse 500 (ErrorBody ''terminated''),
      [ElevenLabsSpeech defaultVoice (JStr ''hi'')]) \<and>
   \<not> includesStr ''terminated'' ''Bad Gateway''"
  by code_simp

section \<open>Properties of the arithmetic\<close>

lemma bitLength_bounds: "0 < n \<Longrightarrow> 2 ^ (bitLength n - 1) \<le> n \<and> n < 2 ^ bitLength n"
proof (induction n rule: bitLength.induct)
  case (1 n)
  show ?case
  proof (cases "n = 1")
    case True
    have "bitLength 1 = 1"
      by (simp add: bitLength.simps [of 1] bitLength.simps [of 0])
    then show ?thesis using True by simp
  next
    case False
    then have h: "0 < n div 2" using 1(2) by simp
    have n: "\<not> n \<le> 0" using 1(2) by simp
    have IH: "2 ^ (bitLength (n div 2) - 1) \<le> n div 2 \<and> n div 2 < 2 ^ bitLength (n div 2)"
      using 1(1) [OF n h] .
    have b: "bitLength n = Suc (bitLength (n div 2))"
      using n by (simp add: bitLength.simps [of n])
    have pos: "0 < bitLength (n div 2)"
      using h by (simp add: bitLength.simps [of "n div 2"])
    then obtain c where c: "bitLength (n div 2) = Suc c" by (cases "bitLength (n div 2)") auto
    have half: "2 * (n div 2) \<le> n" "n < 2 * (n div 2) + 2" by presburger+
    have "2 ^ c \<le> n div 2" "n div 2 + 1 \<le> 2 * 2 ^ c" using IH c by simp_all
    then have "2 * 2 ^ c \<le> n" "n < 2 * (2 * 2 ^ c)" using half by linarith+
    then show ?thesis using b c by simp
  qed
qed

lemma roundHalfEven_of_int: "roundHalfEven (of_int z) = z"
  by (simp add: roundHalfEven_def)

lemma toDouble_exact:
  assumes "x \<noteq> 0" "x / pow2 (max (floorLog2 \<bar>x\<bar>) (- 1022) - 52) = of_int z"
    and "\<bar>x\<bar> < (2 ^ 32) ^ 32"
  shows "toDouble x = Finite x"
proof -
  define q where "q = pow2 (max (floorLog2 \<bar>x\<bar>) (- 1022) - 52)"
  have q: "q \<noteq> 0" by (simp add: q_def pow2_def)
  have "x / q = of_int z" using assms(2) unfolding q_def .
  then have "of_int (roundHalfEven (x / q)) * q = x"
    using q by (simp add: roundHalfEven_of_int nonzero_divide_eq_eq)
  then show ?thesis
    using assms(1,3) unfolding toDouble_def Let_def q_def [symmetric] by simp
qed

lemma toDouble_of_int:
  assumes "\<bar>k\<bar> \<le> 2 ^ 53"
  shows "toDouble (of_int k) = Finite (of_int k)"
proof (cases "k = 0")
  case True
  then show ?thesis by (simp add: toDouble_def)
next
  case False
  define m where "m = \<bar>k\<bar>"
  define b where "b = bitLength m"
  have m: "0 < m" "m \<le> 2 ^ 53" using False assms by (simp_all add: m_def)
  have bounds: "2 ^ (b - 1) \<le> m" "m < 2 ^ b"
    using bitLength_bounds [OF m(1)] by (simp_all add: b_def)
  have bpos: "0 < b" using bounds(2) m(1) by (cases b) auto
  have "(2::int) ^ (b - 1) \<le> 2 ^ 53" using bounds(1) m(2) by linarith
  then have b54: "b - 1 \<le> 53" using power_le_imp_le_exp [of "2::int" "b - 1" 53] by simp
  have abs: "\<bar>of_int k :: rat\<bar> = of_int m" by (simp add: m_def)
  have one: "(1::rat) \<le> of_int m" using m(1) by linarith
  have fl: "floorLog2 \<bar>of_int k\<bar> = int b - 1"
    unfolding abs floorLog2_def using one by (simp add: b_def)
  have mx: "max (floorLog2 \<bar>of_int k\<bar>) (- 1022) - 52 = int b - 53"
    unfolding fl using bpos by simp
  have "\<exists>z. (of_int k :: rat) / pow2 (int b - 53) = of_int z"
  proof (cases "b \<le> 53")
    case True
    have "pow2 (int b - 53) = 1 / 2 ^ (53 - b)"
    proof (cases "b = 53")
      case True
      then show ?thesis by (simp add: pow2_def)
    next
      case False
      then have "int b - 53 < 0" "nat (53 - int b) = 53 - b" using True by simp_all
      then show ?thesis by (simp add: pow2_def)
    qed
    then have "(of_int k :: rat) / pow2 (int b - 53) = of_int (k * 2 ^ (53 - b))"
      by simp
    then show ?thesis by blast
  next
    case False
    then have b: "b = 54" using b54 by simp
    then have "m = 2 ^ 53" using bounds(1) m(2) by simp
    then have "k = 2 ^ 53 \<or> k = - (2 ^ 53)" unfolding m_def by linarith
    then have "k = 2 * (k div 2)" by auto
    then have "(of_int k :: rat) = 2 * of_int (k div 2)"
      by (metis of_int_mult of_int_numeral)
    moreover have "pow2 (int b - 53) = 2" using b by (simp add: pow2_def)
    ultimately have "(of_int k :: rat) / pow2 (int b - 53) = of_int (k div 2)" by simp
    then show ?thesis by blast
  qed
  then obtain z where z: "(of_int k :: rat) / pow2 (max (floorLog2 \<bar>of_int k\<bar>) (- 1022) - 52) = of_int z"
    unfolding mx by blast
  have "(of_int m :: rat) \<le> 2 ^ 53" using m(2) by (metis of_int_le_iff of_int_numeral of_int_power)
  also have "\<dots> < (2 ^ 32) ^ 32" by simp
  finally have lt: "\<bar>of_int k :: rat\<bar> < (2 ^ 32) ^ 32" unfolding abs .
  have nz: "(of_int k :: rat) \<noteq> 0" using False by simp
  show ?thesis by (rule toDouble_exact [OF nz z lt])
qed

lemma foldl_addNumber_of_int:
  "\<bar>a\<bar> + sum_list (map abs ks) \<le> 2 ^ 53 \<Longrightarrow>
   foldl addNumber (Finite (of_int a)) (map Finite (map of_int ks)) =
     Finite (of_int (a + sum_list ks))"
proof (induction ks arbitrary: a)
  case Nil
  then show ?case by simp
next
  case (Cons k ks)
  have nonneg: "0 \<le> sum_list (map abs ks)" by (induction ks) simp_all
  have "\<bar>a + k\<bar> \<le> 2 ^ 53" using Cons.prems nonneg by simp
  then have step: "addNumber (Finite (of_int a)) (Finite (of_int k)) = Finite (of_int (a + k))"
    using toDouble_of_int [of "a + k"] by simp
  have "\<bar>a + k\<bar> + sum_list (map abs ks) \<le> 2 ^ 53" using Cons.prems by simp
  from Cons.IH [OF this] show ?case
    using step by (simp add: add.assoc)
qed

lemma doubleMean_of_integers:
  assumes "\<forall>p\<in>set ps. p \<in> \<int>" "sum_list (map abs ps) \<le> 2 ^ 53"
  shows "doubleMean ps = divideByCount (Finite (sum_list ps)) (length ps)"
proof -
  define ks where "ks = map floor ps"
  have ps: "ps = map of_int ks"
    using assms(1) unfolding ks_def by (induction ps) (auto elim: Ints_cases)
  have "(of_int (sum_list (map abs ks)) :: rat) = sum_list (map abs ps)"
    unfolding ps by (induction ks) simp_all
  then have "(of_int (sum_list (map abs ks)) :: rat) \<le> of_int (2 ^ 53)"
    using assms(2) by simp
  then have "\<bar>0\<bar> + sum_list (map abs ks) \<le> 2 ^ 53"
    unfolding of_int_le_iff by simp
  from foldl_addNumber_of_int [OF this]
  have "foldl addNumber (Finite 0) (map Finite ps) = Finite (of_int (sum_list ks))"
    unfolding ps by simp
  moreover have "(of_int (sum_list ks) :: rat) = sum_list ps"
    unfolding ps by (induction ks) simp_all
  ultimately show ?thesis by (simp add: doubleMean_def)
qed

section \<open>Properties of the summary handler\<close>

lemma foldl_maxNumber_Finite: "foldl maxNumber (Finite a) (map Finite ps) = Finite (foldl max a ps)"
  by (induction ps arbitrary: a) simp_all

lemma foldl_minNumber_Finite: "foldl minNumber (Finite a) (map Finite ps) = Finite (foldl min a ps)"
  by (induction ps arbitrary: a) simp_all

lemma foldl_max_Max: "foldl max p ps = Max (set (p # ps))"
  for p :: rat
proof -
  have "foldl max p ps = fold max ps p"
    by (simp add: foldl_conv_fold max.commute)
  then show ?thesis using Max.set_eq_fold [of p ps] by simp
qed

lemma foldl_min_Min: "foldl min p ps = Min (set (p # ps))"
  for p :: rat
proof -
  have "foldl min p ps = fold min ps p"
    by (simp add: foldl_conv_fold min.commute)
  then show ?thesis using Min.set_eq_fold [of p ps] by simp
qed

lemma mathMax_Finite: "mathMax (map Finite (p # ps)) = Finite (Max (set (p # ps)))"
  by (simp add: mathMax_def foldl_maxNumber_Finite foldl_max_Max)

lemma mathMin_Finite: "mathMin (map Finite (p # ps)) = Finite (Min (set (p # ps)))"
  by (simp add: mathMin_def foldl_minNumber_Finite foldl_min_Min)

lemma pulseOrZero_number:
  "pulseFiniteOrMissing m \<Longrightarrow> pulseOrZero m = JNum (pulseValue m)"
  by (auto simp: pulseFiniteOrMissing_def pulseOrZero_def pulseValue_def orElse_def truthyVal_def
      split: option.splits json.splits number.splits)

lemma numericPulses_values:
  "\<forall>m\<in>set body. pulseFiniteOrMissing m \<Longrightarrow>
   numericPulses body = Some (map Finite (map pulseValue body))"
  by (induction body) (simp_all add: pulseOrZero_number)

lemma pulses_convert:
  "\<forall>m\<in>set body. pulseFiniteOrMissing m \<Longrightarrow>
   \<not> list_ex (\<lambda>m. toStringThrows (pulseOrZero m)) body"
  by (induction body) (simp_all add: pulseOrZero_number)

lemma statisticsOf_values:
  assumes "body \<noteq> []" "\<forall>m\<in>set body. pulseFiniteOrMissing m"
  shows "statisticsOf eng body =
     Inr \<lparr>avgValue = doubleMean (map pulseValue body),
          maxValue = Finite (Max (set (map pulseValue body))),
          minValue = Finite (Min (set (map pulseValue body)))\<rparr>"
proof -
  obtain m ms where b: "body = m # ms" using assms(1) by (cases body) auto
  have mx: "mathMax (map Finite (map pulseValue body)) = Finite (Max (set (map pulseValue body)))"
    using mathMax_Finite [of "pulseValue m" "map pulseValue ms"] by (simp add: b)
  have mn: "mathMin (map Finite (map pulseValue body)) = Finite (Min (set (map pulseValue body)))"
    using mathMin_Finite [of "pulseValue m" "map pulseValue ms"] by (simp add: b)
  show ?thesis
    unfolding statisticsOf_def numericPulses_values [OF assms(2)]
    using pulses_convert [OF assms(2)] mx mn by (simp add: doubleMean_def)
qed

lemma statisticsBody_values:
  "statisticsBody eng \<lparr>avgValue = a, maxValue = Finite mx, minValue = Finite mn\<rparr> =
     \<lparr>avgHeartRate = toFixedNumber (numberToString eng) 1 a,
      maxHeartRate = JNum mx, minHeartRate = JNum mn\<rparr>"
  by (simp add: statisticsBody_def stringifiedNumber_def)

lemma handleSummary_returns_statistics:
  assumes "handleSummary eng network (Inr (JArr body)) calls = (Inr resp, calls')" "body \<noteq> []"
  shows "\<exists>summary stats. statisticsOf eng body = Inr stats \<and>
           resp = jsonResponse 200
             (SummaryBody summary (length body)
                (map_option stringified (getProp (last body) ''Time''))
                (statisticsBody eng stats))"
  using assms
  by (auto simp: handleSummary_def summaryResponse_def Let_def fetch_def
      split: sum.splits if_splits option.splits prod.splits)

lemma eventLine_numeric_time:
  "m \<noteq> JNull \<Longrightarrow> getProp m ''Time'' = Some (JNumber n) \<Longrightarrow>
   \<not> toStringThrows (orElse (getProp m ''Pulse'') (JStr ''N/A'')) \<Longrightarrow>
   \<not> toStringThrows (orElse (getProp m ''Breath'') (JStr ''N/A'')) \<Longrightarrow>
   \<exists>line. eventLine eng m = Inr line"
  by (simp add: eventLine_def Let_def)

lemma pulse_line_converts:
  "pulseFiniteOrMissing m \<Longrightarrow> \<not> toStringThrows (orElse (getProp m ''Pulse'') (JStr ''N/A''))"
  by (auto simp: pulseFiniteOrMissing_def orElse_def truthyVal_def
      split: option.splits json.splits number.splits)

lemma eventLines_numeric_time:
  "\<forall>m\<in>set body. pulseFiniteOrMissing m \<Longrightarrow>
   \<forall>m\<in>set body. m \<noteq> JNull \<and> (\<exists>n. getProp m ''Time'' = Some (JNumber n)) \<and>
      \<not> toStringThrows (orElse (getProp m ''Breath'') (JStr ''N/A'')) \<Longrightarrow>
   \<exists>ls. eventLines eng body = Inr ls"
proof (induction body)
  case Nil
  then show ?case by simp
next
  case (Cons m ms)
  then obtain line ls where "eventLine eng m = Inr line" "eventLines eng ms = Inr ls"
    using eventLine_numeric_time [of m _ eng] pulse_line_converts [of m] by fastforce
  then show ?case by simp
qed

lemma durationText_numeric_time:
  assumes "body \<noteq> []" "\<forall>m\<in>set body. m \<noteq> JNull \<and> (\<exists>n. getProp m ''Time'' = Some (JNumber n)) \<and> P m"
  shows "\<exists>d. durationText eng body = Inr d"
proof -
  have "last body \<in> set body" using assms(1) by simp
  then obtain n where "last body \<noteq> JNull" "getProp (last body) ''Time'' = Some (JNumber n)"
    using assms(2) by blast
  then show ?thesis by (simp add: durationText_def)
qed

lemma handleSummary_returns:
  assumes "body \<noteq> []" "\<forall>m\<in>set body. pulseFiniteOrMissing m"
    and "\<forall>m\<in>set body. m \<noteq> JNull \<and> (\<exists>n. getProp m ''Time'' = Some (JNumber n)) \<and>
           \<not> toStringThrows (orElse (getProp m ''Breath'') (JStr ''N/A''))"
    and "\<forall>p. network (length calls) (GeminiGenerate p None (8 / 10) 300) = Inr r"
    and "ok r" "bodyJson r = Inr geminiData" "getProp geminiData ''candidates'' = Some candidates"
    and "truthy candidates" "candidateText candidates = Some summary" "truthy summary"
    and "statisticsOf eng body = Inr stats"
  shows "\<exists>req. handleSummary eng network (Inr (JArr body)) calls =
           (Inr (jsonResponse 200
              (SummaryBody (stringified summary) (length body)
                 (map_option stringified (getProp (last body) ''Time''))
                 (statisticsBody eng stats))),
            calls @ [req])"
proof -
  obtain ls where ls: "eventLines eng body = Inr ls"
    using eventLines_numeric_time [OF assms(2,3)] by blast
  obtain d where d: "durationText eng body = Inr d"
    using durationText_numeric_time [OF assms(1,3)] by blast
  have nn: "geminiData \<noteq> JNull" using assms(7) by auto
  have "summaryResponse eng body stats r =
      Inr (jsonResponse 200
              (SummaryBody (stringified summary) (length body)
                 (map_option stringified (getProp (last body) ''Time''))
                 (statisticsBody eng stats)))"
    using assms(5-10) nn by (simp add: summaryResponse_def truthyVal_def)
  then show ?thesis
    using assms(1,4,11) ls d by (simp add: handleSummary_def Let_def fetch_def)
qed

text \<open>
  C5, as amended. For an input array that is not empty and in which the \<open>Pulse\<close> of every
  sample is a finite number or is missing (absent or falsy, counted as 0), the statistics
  of every response that the handler returns are: \<open>avgHeartRate\<close>, the text with one
  decimal of the mean as double arithmetic computes it: the pulses are added to 0 from
  left to right, every sum rounded to a double, and the total is divided by the count and
  rounded; \<open>maxHeartRate\<close> and \<open>minHeartRate\<close>, the maximum and the minimum of the pulse
  values, as numbers. When the pulses are integers whose absolute values add up to at most
  \<open>2^53\<close>, the sum is exact and the average is the exact mean rounded once to a double.
  The handler returns such a response when no sample is \<open>null\<close>, every sample has a
  numeric \<open>Time\<close> and a \<open>Breath\<close> that has a string form, and the generation service
  answers with a text. In particular the pulses 60, 80, 100 give \<open>80.0\<close>, 100 and 60;
  nineteen pulses of 60 and one of 61 give \<open>60.0\<close>, the double nearest to their mean
  60.05 being below it.
\<close>

theorem handleSummary_statistics:
  assumes "body \<noteq> []" and "\<forall>m\<in>set body. pulseFiniteOrMissing m"
  shows
    "let ps = map pulseValue body;
         stats =
           \<lparr>avgHeartRate = toFixedNumber (numberToString eng) 1 (doubleMean ps),
            maxHeartRate = JNum (Max (set ps)),
            minHeartRate = JNum (Min (set ps))\<rparr>
     in
       (\<forall>resp calls'.
          handleSummary eng network (Inr (JArr body)) calls = (Inr resp, calls') \<longrightarrow>
          (\<exists>summary. resp = jsonResponse 200
             (SummaryBody summary (length body)
                (map_option stringified (getProp (last body) ''Time'')) stats))) \<and>
       ((\<forall>p\<in>set ps. p \<in> \<int>) \<and> sum_list (map abs ps) \<le> 2 ^ 53 \<longrightarrow>
          doubleMean ps = toDouble (sum_list ps / of_nat (length ps))) \<and>
       ((\<forall>m\<in>set body. m \<noteq> JNull \<and> (\<exists>n. getProp m ''Time'' = Some (JNumber n)) \<and>
            \<not> toStringThrows (orElse (getProp m ''Breath'') (JStr ''N/A''))) \<and>
        (\<forall>p. network (length calls) (GeminiGenerate p None (8 / 10) 300) = Inr r) \<and>
        ok r \<and> bodyJson r = Inr geminiData \<and>
        getProp geminiData ''candidates'' = Some candidates \<and> truthy candidates \<and>
        candidateText candidates = Some summary \<and> truthy summary \<longrightarrow>
        (\<exists>req. handleSummary eng network (Inr (JArr body)) calls =
           (Inr (jsonResponse 200
              (SummaryBody (stringified summary) (length body)
                 (map_option stringified (getProp (last body) ''Time'')) stats)),
            calls @ [req])))"
proof -
  define ps where "ps = map pulseValue body"
  define stats where "stats =
           \<lparr>avgHeartRate = toFixedNumber (numberToString eng) 1 (doubleMean ps),
            maxHeartRate = JNum (Max (set ps)),
            minHeartRate = JNum (Min (set ps))\<rparr>"
  define vals where "vals =
     \<lparr>avgValue = doubleMean ps, maxValue = Finite (Max (set ps)),
      minValue = Finite (Min (set ps))\<rparr>"
  have st: "statisticsOf eng body = Inr vals"
    unfolding vals_def ps_def by (rule statisticsOf_values [OF assms])
  have sb: "statisticsBody eng vals = stats"
    unfolding vals_def stats_def by (rule statisticsBody_values)
  have 1: "\<forall>resp calls'.
          handleSummary eng network (Inr (JArr body)) calls = (Inr resp, calls') \<longrightarrow>
          (\<exists>summary. resp = jsonResponse 200
             (SummaryBody summary (length body)
                (map_option stringified (getProp (last body) ''Time'')) stats))"
    using handleSummary_returns_statistics [OF _ assms(1), of eng network calls] st sb
    by fastforce
  have len: "length ps \<noteq> 0" using assms(1) by (simp add: ps_def)
  have 2: "(\<forall>p\<in>set ps. p \<in> \<int>) \<and> sum_list (map abs ps) \<le> 2 ^ 53 \<longrightarrow>
          doubleMean ps = toDouble (sum_list ps / of_nat (length ps))"
    using doubleMean_of_integers [of ps] len by simp
  have 3: "(\<forall>m\<in>set body. m \<noteq> JNull \<and> (\<exists>n. getProp m ''Time'' = Some (JNumber n)) \<and>
            \<not> toStringThrows (orElse (getProp m ''Breath'') (JStr ''N/A''))) \<and>
        (\<forall>p. network (length calls) (GeminiGenerate p None (8 / 10) 300) = Inr r) \<and>
        ok r \<and> bodyJson r = Inr geminiData \<and>
        getProp geminiData ''candidates'' = Some candidates \<and> truthy candidates \<and>
        candidateText candidates = Some summary \<and> truthy summary \<longrightarrow>
        (\<exists>req. handleSummary eng network (Inr (JArr body)) calls =
           (Inr (jsonResponse 200
              (SummaryBody (stringified summary) (length body)
                 (map_option stringified (getProp (last body) ''Time'')) stats)),
            calls @ [req]))"
  proof (intro impI, elim conjE)
    assume "\<forall>m\<in>set body. m \<noteq> JNull \<and> (\<exists>n. getProp m ''Time'' = Some (JNumber n)) \<and>
            \<not> toStringThrows (orElse (getProp m ''Breath'') (JStr ''N/A''))"
      "\<forall>p. network (length calls) (GeminiGenerate p None (8 / 10) 300) = Inr r"
      "ok r" "bodyJson r = Inr geminiData"
      "getProp geminiData ''candidates'' = Some candidates" "truthy candidates"
      "candidateText candidates = Some summary" "truthy summary"
    from handleSummary_returns [where body = body and network = network and calls = calls
        and r = r and geminiData = geminiData and candidates = candidates
        and summary = summary and eng = eng and stats = vals, OF assms this st]
    show "\<exists>req. handleSummary eng network (Inr (JArr body)) calls =
           (Inr (jsonResponse 200
              (SummaryBody (stringified summary) (length body)
                 (map_option stringified (getProp (last body) ''Time'')) stats)),
            calls @ [req])"
      unfolding sb .
  qed
  show ?thesis
    unfolding Let_def ps_def [symmetric] stats_def [symmetric]
    using 1 2 3 by (intro conjI)
qed

theorem handleSummary_statistics_witness:
  "handleSummary sampleEngine sampleNet
     (Inr (JArr [JObj [(''Pulse'', JNum 60), (''Time'', JNum 1)],
                 JObj [(''Pulse'', JNum 80), (''Time'', JNum 2)],
                 JObj [(''Pulse'', JNum 100), (''Time'', JNum (7 / 2))]])) [] =
     (Inr (jsonResponse 200
        (SummaryBody (JStr ''Calm. Keep a steady pace.'') 3 (Some (JNum (7 / 2)))
           \<lparr>avgHeartRate = ''80.0'', maxHeartRate = JNum 100, minHeartRate = JNum 60\<rparr>)),
      [GeminiGenerate
         (SummaryPrompt
            [\<lparr>lineTime = ''1.00'', lineHr = JNum 60, lineBr = JStr ''N/A''\<rparr>,
             \<lparr>lineTime = ''2.00'', lineHr = JNum 80, lineBr = JStr ''N/A''\<rparr>,
             \<lparr>lineTime = ''3.50'', lineHr = JNum 100, lineBr = JStr ''N/A''\<rparr>]
            3 ''4'' ''80.0'' (Finite 60) (Finite 100))
         None (8 / 10) 300]) \<and>
   toFixedNumber (numberToString sampleEngine) 1
     (doubleMean (map pulseValue
        [JObj [(''Pulse'', JNum 60), (''Time'', JNum 1)],
         JObj [(''Pulse'', JNum 80), (''Time'', JNum 2)],
         JObj [(''Pulse'', JNum 100), (''Time'', JNum (7 / 2))]])) = ''80.0'' \<and>
   Max (set (map pulseValue
        [JObj [(''Pulse'', JNum 60), (''Time'', JNum 1)],
         JObj [(''Pulse'', JNum 80), (''Time'', JNum 2)],
         JObj [(''Pulse'', JNum 100), (''Time'', JNum (7 / 2))]])) = 100 \<and>
   Min (set (map pulseValue
        [JObj [(''Pulse'', JNum 60), (''Time'', JNum 1)],
         JObj [(''Pulse'', JNum 80), (''Time'', JNum 2)],
         JObj [(''Pulse'', JNum 100), (''Time'', JNum (7 / 2))]])) = 60 \<and>
   doubleMean [60, 80, 100] = toDouble (240 / 3) \<and>
   toFixedNumber (numberToString sampleEngine) 1
     (doubleMean (map pulseValue
        (replicate 19 (JObj [(''Pulse'', JNum 60)]) @ [JObj [(''Pulse'', JNum 61)]]))) = ''60.0''"
proof -
  let ?b = "[JObj [(''Pulse'', JNum 60), (''Time'', JNum 1)],
             JObj [(''Pulse'', JNum 80), (''Time'', JNum 2)],
             JObj [(''Pulse'', JNum 100), (''Time'', JNum (7 / 2))]]"
  let ?resp = "jsonResponse 200
        (SummaryBody (JStr ''Calm. Keep a steady pace.'') 3 (Some (JNum (7 / 2)))
           \<lparr>avgHeartRate = ''80.0'', maxHeartRate = JNum 100, minHeartRate = JNum 60\<rparr>)"
  let ?calls = "[GeminiGenerate
         (SummaryPrompt
            [\<lparr>lineTime = ''1.00'', lineHr = JNum 60, lineBr = JStr ''N/A''\<rparr>,
             \<lparr>lineTime = ''2.00'', lineHr = JNum 80, lineBr = JStr ''N/A''\<rparr>,
             \<lparr>lineTime = ''3.50'', lineHr = JNum 100, lineBr = JStr ''N/A''\<rparr>]
            3 ''4'' ''80.0'' (Finite 60) (Finite 100))
         None (8 / 10) 300]"
  define avg where "avg = toFixedNumber (numberToString sampleEngine) 1
               (doubleMean (map pulseValue ?b))"
  define mx where "mx = Max (set (map pulseValue ?b))"
  define mn where "mn = Min (set (map pulseValue ?b))"
  have run: "handleSummary sampleEngine sampleNet (Inr (JArr ?b)) [] = (Inr ?resp, ?calls)"
    by code_simp
  have h: "?b \<noteq> []" "\<forall>m\<in>set ?b. pulseFiniteOrMissing m"
    by (simp_all add: pulseFiniteOrMissing_def)
  have ps: "map pulseValue ?b = [60, 80, 100]"
    by (simp add: pulseValue_def)
  note inst = handleSummary_statistics [OF h, of sampleEngine sampleNet "[]",
      unfolded Let_def, folded avg_def mx_def mn_def]
  have "\<forall>resp calls'.
          handleSummary sampleEngine sampleNet (Inr (JArr ?b)) [] = (Inr resp, calls') \<longrightarrow>
          (\<exists>summary. resp = jsonResponse 200
             (SummaryBody summary (length ?b)
                (map_option stringified (getProp (last ?b) ''Time''))
                \<lparr>avgHeartRate = avg, maxHeartRate = JNum mx, minHeartRate = JNum mn\<rparr>))"
    using inst by (rule conjunct1)
  with run obtain summary where
    "?resp = jsonResponse 200
       (SummaryBody summary (length ?b)
          (map_option stringified (getProp (last ?b) ''Time''))
          \<lparr>avgHeartRate = avg, maxHeartRate = JNum mx, minHeartRate = JNum mn\<rparr>)"
    by blast
  then have "''80.0'' = avg \<and> (100::rat) = mx \<and> (60::rat) = mn"
    unfolding jsonResponse_def
    by (simp only: response.ext_inject response_body.inject statistics.ext_inject
          json.inject number.inject)
  then have e: "''80.0'' = avg" "(100::rat) = mx" "(60::rat) = mn"
    by (rule conjunct1, rule conjunct2 [THEN conjunct1], rule conjunct2 [THEN conjunct2])
  have avg: "toFixedNumber (numberToString sampleEngine) 1
               (doubleMean (map pulseValue ?b)) = ''80.0''"
    using e(1) [symmetric] unfolding avg_def .
  have mx: "Max (set (map pulseValue ?b)) = 100"
    using e(2) [symmetric] unfolding mx_def .
  have mn: "Min (set (map pulseValue ?b)) = 60"
    using e(3) [symmetric] unfolding mn_def .
  have "(\<forall>p\<in>set (map pulseValue ?b). p \<in> \<int>) \<and>
        sum_list (map abs (map pulseValue ?b)) \<le> 2 ^ 53 \<longrightarrow>
        doubleMean (map pulseValue ?b) =
          toDouble (sum_list (map pulseValue ?b) / of_nat (length (map pulseValue ?b)))"
    using handleSummary_statistics [OF h, of sampleEngine sampleNet "[]", unfolded Let_def]
    by (rule conjunct2 [THEN conjunct1])
  then have mean: "doubleMean [60, 80, 100] = toDouble (240 / 3)"
    unfolding ps by simp
  let ?c = "replicate 19 (JObj [(''Pulse'', JNum 60)]) @ [JObj [(''Pulse'', JNum 61)]]"
  have hc: "?c \<noteq> []" "\<forall>m\<in>set ?c. pulseFiniteOrMissing m"
    by (simp_all add: pulseFiniteOrMissing_def)
  have pc: "map pulseValue ?c = replicate 19 60 @ [61]"
    by (simp add: pulseValue_def)
  have "(\<forall>p\<in>set (map pulseValue ?c). p \<in> \<int>) \<and>
        sum_list (map abs (map pulseValue ?c)) \<le> 2 ^ 53 \<longrightarrow>
        doubleMean (map pulseValue ?c) =
          toDouble (sum_list (map pulseValue ?c) / of_nat (length (map pulseValue ?c)))"
    using handleSummary_statistics [OF hc, of sampleEngine sampleNet "[]", unfolded Let_def]
    by (rule conjunct2 [THEN conjunct1])
  then have "doubleMean (map pulseValue ?c) = toDouble (1201 / 20)"
    unfolding pc by (simp add: sum_list_replicate)
  moreover have "toFixedNumber (numberToString sampleEngine) 1 (toDouble (1201 / 20)) = ''60.0''"
    by code_simp
  ultimately have twenty: "toFixedNumber (numberToString sampleEngine) 1
      (doubleMean (map pulseValue ?c)) = ''60.0''"
    by simp
  show ?thesis
    by (intro conjI) (rule run, rule avg, rule mx, rule mn, rule mean, rule twenty)
qed

text \<open>
  C5 as stated fails: double arithmetic does not give the mean. For the pulses
  \<open>9007199254740992\<close> (\<open>2^53\<close>) and 1 the sum \<open>2^53 + 1\<close> is not a double and is rounded
  to \<open>2^53\<close>, so the handler returns the average \<open>4503599627370496.0\<close>; the mean is
  \<open>4503599627370496.5\<close>.
\<close>

theorem handleSummary_rounded_sum_counterexample:
  "handleSummary sampleEngine sampleNet
     (Inr (JArr [JObj [(''Pulse'', JNum 9007199254740992), (''Time'', JNum 1)],
                 JObj [(''Pulse'', JNum 1), (''Time'', JNum 2)]])) [] =
     (Inr (jsonResponse 200
        (SummaryBody (JStr ''Calm. Keep a steady pace.'') 2 (Some (JNum 2))
           \<lparr>avgHeartRate = ''4503599627370496.0'', maxHeartRate = JNum 9007199254740992,
            minHeartRate = JNum 1\<rparr>)),
      [GeminiGenerate
         (SummaryPrompt
            [\<lparr>lineTime = ''1.00'', lineHr = JNum 9007199254740992, lineBr = JStr ''N/A''\<rparr>,
             \<lparr>lineTime = ''2.00'', lineHr = JNum 1, lineBr = JStr ''N/A''\<rparr>]
            2 ''2'' ''4503599627370496.0'' (Finite 1) (Finite 9007199254740992))
         None (8 / 10) 300]) \<and>
   toFixed (numberToString sampleEngine) 1 ((9007199254740992 + 1) / 2) = ''4503599627370496.5''"
  by code_simp

text \<open>
  C6. For every summary request whose body is not an array, or is an empty array, the
  handler returns the placeholder summary, and so does the route, and no upstream call is
  made.
\<close>

theorem handleSummary_placeholder:
  "(\<forall>ms. body \<noteq> JArr ms) \<or> body = JArr [] \<Longrightarrow>
   handleSummary eng network (Inr body) calls =
     (Inr (jsonResponse 200 (PlaceholderBody ''No data was collected during this session.'')),
      calls) \<and>
   routeSummary eng network (Inr body) calls =
     (jsonResponse 200 (PlaceholderBody ''No data was collected during this session.''), calls)"
  by (cases body) (auto simp: handleSummary_def routeSummary_def route_def)

theorem handleSummary_placeholder_witness:
  "routeSummary sampleEngine sampleNet (Inr (JArr [])) [] =
     (jsonResponse 200 (PlaceholderBody ''No data was collected during this session.''), []) \<and>
   routeSummary sampleEngine sampleNet (Inr (JObj [(''Pulse'', JNum 72)])) [] =
     (jsonResponse 200 (PlaceholderBody ''No data was collected during this session.''), [])"
  using handleSummary_placeholder [of "JArr []" sampleEngine sampleNet "[]"]
    handleSummary_placeholder [of "JObj [(''Pulse'', JNum 72)]" sampleEngine sampleNet "[]"]
  by simp






end
